theory Spec2Isabelle
  imports Main
begin

section \<open>Exceptions and results\<close>

text \<open>
  Every function of \<^verbatim>\<open>nautobot_golden_config/utilities/helper.py\<close> is modelled as a
  HOL function that returns \<open>exc + 'a\<close>: \<open>Inl e\<close> when the Python raises \<open>e\<close>,
  \<open>Inr v\<close> when it returns \<open>v\<close>. The string carried by an exception is the text
  that \<^verbatim>\<open>str(error)\<close> gives. \<open>TemplateError\<close> stands for every Jinja
  \<^verbatim>\<open>TemplateError\<close> that is neither an \<^verbatim>\<open>UndefinedError\<close> nor a
  \<^verbatim>\<open>TemplateSyntaxError\<close>; \<open>TemplateAssertionError\<close> is the subclass of
  \<^verbatim>\<open>TemplateSyntaxError\<close>.
\<close>

datatype exc =
    NornirNautobotException string
  | RenderConfigToPushError string
  | UndefinedError string
  | TemplateSyntaxError nat string
  | TemplateAssertionError nat string
  | TemplateError string
  | DoesNotExist
  | MultipleObjectsReturned
  | RelatedObjectDoesNotExist
  | KeyError string
  | AttributeError string
  | OtherException string

section \<open>Data model\<close>

text \<open>
  The rows of the tables the helpers read. \<open>GoldenConfigSetting.dynamic_group\<close> is the
  one-to-one field of migration 0021 (\<^verbatim>\<open>related_name="golden_config_setting"\<close>); a
  setting row therefore holds its group, and the reverse accessor
  \<open>golden_config_setting\<close> of a group is a lookup in the settings table by the group's
  primary key, as the database does it. \<open>filter_expr\<close> is the field \<^verbatim>\<open>filter\<close> of a
  Dynamic Group (its JSON text), \<open>pk\<close> the field \<^verbatim>\<open>id\<close>/\<^verbatim>\<open>pk\<close> of a device.
\<close>

record DynamicGroup =
  dg_pk :: string
  filter_expr :: string

record GoldenConfigSetting =
  gcs_pk :: string
  weight :: int
  dynamic_group :: DynamicGroup
  sot_agg_query :: "string option"

record Device =
  pk :: string
  name :: string
  platform :: "string option"
  dynamic_groups :: "DynamicGroup list"

definition golden_config_setting ::
  "GoldenConfigSetting list \<Rightarrow> DynamicGroup \<Rightarrow> GoldenConfigSetting option" where
  "golden_config_setting objects g = find (\<lambda>s. dg_pk (dynamic_group s) = dg_pk g) objects"

section \<open>Device Settings Resolver: \<^verbatim>\<open>get_device_to_settings_map\<close>\<close>

text \<open>
  \<^verbatim>\<open>.exclude(golden_config_setting__isnull=True)\<close> keeps the groups that have a
  setting; \<^verbatim>\<open>.order_by("-golden_config_setting__weight")\<close> sorts them by descending
  weight. The database leaves the order of equal weights open; the model sorts stably,
  so the order of \<open>dynamic_groups\<close> stands for the order the database happens to use.
\<close>

definition exclude_isnull ::
  "GoldenConfigSetting list \<Rightarrow> DynamicGroup list \<Rightarrow> DynamicGroup list" where
  "exclude_isnull objects gs = filter (\<lambda>g. golden_config_setting objects g \<noteq> None) gs"

definition weight_key :: "GoldenConfigSetting list \<Rightarrow> DynamicGroup \<Rightarrow> int" where
  "weight_key objects g =
     (case golden_config_setting objects g of None \<Rightarrow> 0 | Some s \<Rightarrow> - weight s)"

definition order_by_weight_desc ::
  "GoldenConfigSetting list \<Rightarrow> DynamicGroup list \<Rightarrow> DynamicGroup list" where
  "order_by_weight_desc objects gs = sort_key (weight_key objects) gs"

text \<open>
  The loop body of \<^verbatim>\<open>get_device_to_settings_map\<close>: \<^verbatim>\<open>dynamic_group.exists()\<close> is
  the test for a non-empty result, \<^verbatim>\<open>dynamic_group.first()\<close> its head, and
  \<^verbatim>\<open>.golden_config_setting\<close> raises when the group has no setting.
\<close>

fun settings_map_loop ::
  "GoldenConfigSetting list \<Rightarrow> Device list \<Rightarrow> (string \<rightharpoonup> GoldenConfigSetting)
     \<Rightarrow> exc + (string \<rightharpoonup> GoldenConfigSetting)" where
  "settings_map_loop objects [] device_to_settings_map = Inr device_to_settings_map"
| "settings_map_loop objects (device # queryset) device_to_settings_map =
     (case order_by_weight_desc objects (exclude_isnull objects (dynamic_groups device)) of
        [] \<Rightarrow> settings_map_loop objects queryset device_to_settings_map
      | first # _ \<Rightarrow>
          (case golden_config_setting objects first of
             None \<Rightarrow> Inl RelatedObjectDoesNotExist
           | Some s \<Rightarrow>
               settings_map_loop objects queryset (device_to_settings_map(pk device \<mapsto> s))))"

definition get_device_to_settings_map ::
  "GoldenConfigSetting list \<Rightarrow> Device list \<Rightarrow> exc + (string \<rightharpoonup> GoldenConfigSetting)" where
  "get_device_to_settings_map objects queryset = settings_map_loop objects queryset Map.empty"

section \<open>Scope Query Builder: \<^verbatim>\<open>get_job_filter\<close>\<close>

subsection \<open>Django's \<^verbatim>\<open>Q\<close> objects\<close>

text \<open>
  A \<^verbatim>\<open>Q\<close> object is either the empty \<^verbatim>\<open>Q()\<close> or a condition on a row. Django's
  \<^verbatim>\<open>|\<close> returns the other operand when one of them is empty, and
  \<^verbatim>\<open>objects.filter(Q())\<close> restricts nothing: the comment of \<^verbatim>\<open>get_job_filter\<close>
  relies on it ("all devices are in scope").
\<close>

datatype 'a Q = Q_empty | Q_cond "'a \<Rightarrow> bool"

fun Q_or :: "'a Q \<Rightarrow> 'a Q \<Rightarrow> 'a Q" where
  "Q_or Q_empty other = other"
| "Q_or self Q_empty = self"
| "Q_or (Q_cond p) (Q_cond q) = Q_cond (\<lambda>row. p row \<or> q row)"

definition objects_filter :: "'a list \<Rightarrow> 'a Q \<Rightarrow> 'a list" where
  "objects_filter objects q = (case q of Q_empty \<Rightarrow> objects | Q_cond p \<Rightarrow> filter p objects)"

subsection \<open>The job parameters and the query dictionary\<close>

definition FIELDS :: "string list" where
  "FIELDS = [''platform'', ''tenant_group'', ''tenant'', ''region'', ''site'', ''role'',
             ''rack'', ''rack_group'', ''manufacturer'', ''device_type'']"

datatype device_param = DeviceInstance Device | DeviceQuerySet "Device list"

text \<open>
  The dictionary \<^verbatim>\<open>data\<close>: \<open>related data field\<close> is the list
  \<^verbatim>\<open>data[field].values_list("pk", flat=True)\<close> of a field of \<open>FIELDS\<close> (\<open>None\<close>
  when the key is missing), \<open>tag data\<close> the slugs of \<^verbatim>\<open>data["tag"]\<close> (empty when it
  is missing), \<open>data_device\<close> the entry \<^verbatim>\<open>data["device"]\<close>. A queryset is true in
  Python when it is not empty.
\<close>

record job_data =
  related :: "string \<rightharpoonup> string list"
  tag :: "string list"
  data_device :: "device_param option"

type_synonym query = "string \<rightharpoonup> string list"

definition empty_data :: job_data where
  "empty_data = \<lparr>related = Map.empty, tag = [], data_device = None\<rparr>"

fun translate_fields :: "job_data \<Rightarrow> string list \<Rightarrow> query \<Rightarrow> query" where
  "translate_fields data [] query = query"
| "translate_fields data (field # rest) query =
     translate_fields data rest
       (case related data field of
          None \<Rightarrow> query
        | Some pks \<Rightarrow> if pks \<noteq> [] then query(field @ ''_id'' \<mapsto> pks) else query)"

definition build_query :: "job_data \<Rightarrow> query" where
  "build_query data =
     (let query = translate_fields data FIELDS Map.empty;
          query = (if tag data \<noteq> [] then query(''tag'' \<mapsto> tag data) else query)
      in case data_device data of
           None \<Rightarrow> query
         | Some (DeviceInstance d) \<Rightarrow> query(''id'' \<mapsto> [pk d])
         | Some (DeviceQuerySet ds) \<Rightarrow> if ds \<noteq> [] then query(''id'' \<mapsto> map pk ds) else query)"

subsection \<open>The base scope\<close>

definition upper_char :: "char \<Rightarrow> char" where
  "upper_char c =
     (let n = (of_char c :: nat) in if 97 \<le> n \<and> n \<le> 122 then char_of (n - 32) else c)"

definition iexact :: "string \<Rightarrow> string \<Rightarrow> bool" where
  "iexact a b = (map upper_char a = map upper_char b)"

fun union_loop ::
  "(DynamicGroup \<Rightarrow> Device Q) \<Rightarrow> GoldenConfigSetting list \<Rightarrow> Device Q \<Rightarrow> Device Q" where
  "union_loop generate_query [] raw_qs = raw_qs"
| "union_loop generate_query (obj # objs) raw_qs =
     union_loop generate_query objs (Q_or raw_qs (generate_query (dynamic_group obj)))"

text \<open>
  \<open>generate_query\<close> is the method of Nautobot's Dynamic Group (the Group Membership
  Resolver), a parameter here. \<open>Device_objects\<close> is the table \<^verbatim>\<open>Device.objects\<close>.
\<close>

definition raw_qs ::
  "(DynamicGroup \<Rightarrow> Device Q) \<Rightarrow> GoldenConfigSetting list \<Rightarrow> Device Q" where
  "raw_qs generate_query objects =
     (if \<not> (filter (\<lambda>obj. iexact (filter_expr (dynamic_group obj)) ''{}'') objects \<noteq> [])
      then union_loop generate_query objects Q_empty
      else Q_empty)"

definition base_qs ::
  "(DynamicGroup \<Rightarrow> Device Q) \<Rightarrow> GoldenConfigSetting list \<Rightarrow> Device list \<Rightarrow> Device list" where
  "base_qs generate_query objects Device_objects =
     objects_filter Device_objects (raw_qs generate_query objects)"

subsection \<open>The three failures\<close>

fun join :: "string \<Rightarrow> string list \<Rightarrow> string" where
  "join sep [] = []"
| "join sep [x] = x"
| "join sep (x # y # ys) = x @ sep @ join sep (y # ys)"

text \<open>
  The source raises \<^verbatim>\<open>NornirNautobotException\<close> three times, with three messages; the
  names of the spec stand for the exception with each message.
\<close>

definition EmptyBaseScope :: exc where
  "EmptyBaseScope = NornirNautobotException
     ''The base queryset didn't find any devices. Please check the Golden Config Setting scope.''"

definition NoMatchingDevices :: exc where
  "NoMatchingDevices = NornirNautobotException
     (''The provided job parameters didn't match any devices detected by the Golden Config scope. ''
      @ ''Please check the scope defined within Golden Config Settings or select the correct job ''
      @ ''parameters to correctly match devices.'')"

definition MissingPlatform :: "Device list \<Rightarrow> exc" where
  "MissingPlatform devices_no_platform = NornirNautobotException
     (''The following device(s) '' @ join '', '' (map name devices_no_platform)
      @ '' have no platform defined. Platform is required.'')"

text \<open>
  Modelled from the spec: \<^verbatim>\<open>DeviceFilterSet\<close> is Nautobot's filter set, not part of
  this repository. Following the spec ("apply job-parameter constraints (AND-combination
  with base scope) via directory filtering"), \<^verbatim>\<open>DeviceFilterSet(data=query,
  queryset=base_qs).qs\<close> keeps the devices of \<open>base_qs\<close> that satisfy the constraints of
  \<open>query\<close>; which devices satisfy a query is the parameter \<open>DeviceFilterSet\<close>.
\<close>

definition get_job_filter ::
  "(DynamicGroup \<Rightarrow> Device Q) \<Rightarrow> (query \<Rightarrow> Device \<Rightarrow> bool) \<Rightarrow> GoldenConfigSetting list
     \<Rightarrow> Device list \<Rightarrow> job_data option \<Rightarrow> exc + Device list" where
  "get_job_filter generate_query DeviceFilterSet objects Device_objects data =
     (let data = (case data of None \<Rightarrow> empty_data | Some d \<Rightarrow> d);
          query = build_query data;
          base = base_qs generate_query objects Device_objects
      in if base = [] then Inl EmptyBaseScope
         else
           let devices_filtered = filter (DeviceFilterSet query) base in
           if devices_filtered = [] then Inl NoMatchingDevices
           else
             let devices_no_platform = filter (\<lambda>d. platform d = None) devices_filtered in
             if devices_no_platform \<noteq> [] then Inl (MissingPlatform devices_no_platform)
             else Inr devices_filtered)"

section \<open>Permission-Gated Secret Resolver: \<^verbatim>\<open>get_secret_by_secret_group_slug\<close>\<close>

record User =
  is_superuser :: bool
  is_authenticated :: bool
  get_all_permissions :: "string list"

record SecretsGroup =
  slug :: string

text \<open>
  What the resolver calls outside this repository: Nautobot's
  \<^verbatim>\<open>permission_is_exempt\<close>, the table \<^verbatim>\<open>SecretsGroup.objects\<close> and the method
  \<^verbatim>\<open>get_secret_value(access_type, secret_type)\<close> of a secrets group, which returns
  the secret's string or raises.
\<close>

record secrets_backend =
  permission_is_exempt :: "string \<Rightarrow> bool"
  SecretsGroup_objects :: "SecretsGroup list"
  get_secret_value :: "SecretsGroup \<Rightarrow> string \<Rightarrow> string \<Rightarrow> exc + string"

definition TYPE_GENERIC :: string where
  "TYPE_GENERIC = ''Generic''"

text \<open>Django's \<^verbatim>\<open>objects.get(slug=...)\<close>: exactly one row, or an exception.\<close>

definition objects_get :: "SecretsGroup list \<Rightarrow> string \<Rightarrow> exc + SecretsGroup" where
  "objects_get objects secrets_group_slug =
     (case filter (\<lambda>g. slug g = secrets_group_slug) objects of
        [] \<Rightarrow> Inl DoesNotExist
      | [g] \<Rightarrow> Inr g
      | _ \<Rightarrow> Inl MultipleObjectsReturned)"

text \<open>
  The truth value Python gives a model instance in \<^verbatim>\<open>if secrets_group:\<close>: a Django
  model defines neither \<^verbatim>\<open>__bool__\<close> nor \<^verbatim>\<open>__len__\<close>, so every instance is true.
\<close>

definition instance_truth :: "SecretsGroup \<Rightarrow> bool" where
  "instance_truth secrets_group = True"

definition secret_lookup ::
  "secrets_backend \<Rightarrow> string \<Rightarrow> string \<Rightarrow> string \<Rightarrow> exc + string option" where
  "secret_lookup B secrets_group_slug secret_type secret_access_type =
     (case objects_get (SecretsGroup_objects B) secrets_group_slug of
        Inl e \<Rightarrow> Inl e
      | Inr secrets_group \<Rightarrow>
          if instance_truth secrets_group then
            (case get_secret_value B secrets_group secret_access_type secret_type of
               Inl e \<Rightarrow> Inl e
             | Inr v \<Rightarrow> Inr (Some v))
          else Inr None)"

text \<open>
  The result is \<open>Inr (Some s)\<close> for a returned string and \<open>Inr None\<close> for Python's
  \<^verbatim>\<open>None\<close>. The default \<^verbatim>\<open>secret_access_type\<close> of the source is \<open>TYPE_GENERIC\<close>.
\<close>

definition get_secret_by_secret_group_slug ::
  "secrets_backend \<Rightarrow> User \<Rightarrow> string \<Rightarrow> string \<Rightarrow> string \<Rightarrow> exc + string option" where
  "get_secret_by_secret_group_slug B user secrets_group_slug secret_type secret_access_type =
     (let permission_secrets_group = ''extras.view_secretsgroup'' in
      if is_superuser user \<or> permission_is_exempt B permission_secrets_group then
        secret_lookup B secrets_group_slug secret_type secret_access_type
      else if \<not> is_authenticated user
              \<or> permission_secrets_group \<notin> set (get_all_permissions user) then
        Inr (Some (''You have no permission to read this secret '' @ secrets_group_slug @ ''.''))
      else secret_lookup B secrets_group_slug secret_type secret_access_type)"

section \<open>Template rendering\<close>

text \<open>Python's decimal text of a natural number, for \<^verbatim>\<open>{error.lineno}\<close>.\<close>

definition digit_char :: "nat \<Rightarrow> char" where
  "digit_char d = char_of (48 + d)"

function str_nat :: "nat \<Rightarrow> string" where
  "str_nat n = (if n < 10 then [digit_char n] else str_nat (n div 10) @ [digit_char (n mod 10)])"
  by pat_completeness auto
termination
  by (relation "measure id") auto

declare str_nat.simps [simp del]

subsection \<open>The logging path: \<^verbatim>\<open>render_jinja_template\<close>\<close>

text \<open>
  \<open>render_jinja2 template obj\<close> is Nautobot's
  \<^verbatim>\<open>render_jinja2(template_code=template, context={"obj": obj})\<close>. A call of
  \<^verbatim>\<open>logger.log_failure\<close> is recorded with the positional arguments the source passes;
  the logger (\<open>log_failure\<close>, a parameter) returns (\<open>None\<close>) or raises (\<open>Some e\<close>).
  The function returns its result and the calls of the logger it made, in order.
\<close>

datatype log_arg = ArgDevice Device | ArgString string

definition undefined_error_msg :: "string \<Rightarrow> string" where
  "undefined_error_msg template =
     ''Jinja encountered and UndefinedError`, check the template for missing variable definitions.\<newline>''
     @ ''Template:\<newline>'' @ template"

definition syntax_error_msg :: "nat \<Rightarrow> string \<Rightarrow> string" where
  "syntax_error_msg lineno template =
     ''Jinja encountered a SyntaxError at line number '' @ str_nat lineno @ '',''
     @ ''check the template for invalid Jinja syntax.\<newline>Template:\<newline>'' @ template"

definition template_error_msg :: "string \<Rightarrow> string" where
  "template_error_msg template =
     ''Jinja encountered an unexpected TemplateError; check the template for correctness\<newline>''
     @ ''Template:\<newline>'' @ template"

definition log_and_raise ::
  "(log_arg list \<Rightarrow> exc option) \<Rightarrow> log_arg list \<Rightarrow> (exc + string) \<times> log_arg list list" where
  "log_and_raise log_failure args =
     (case log_failure args of
        Some e \<Rightarrow> (Inl e, [args])
      | None \<Rightarrow> (Inl (NornirNautobotException []), [args]))"

definition render_jinja_template ::
  "(string \<Rightarrow> Device \<Rightarrow> exc + string) \<Rightarrow> (log_arg list \<Rightarrow> exc option) \<Rightarrow> Device \<Rightarrow> string
     \<Rightarrow> (exc + string) \<times> log_arg list list" where
  "render_jinja_template render_jinja2 log_failure obj template =
     (case render_jinja2 template obj of
        Inr text \<Rightarrow> (Inr text, [])
      | Inl error \<Rightarrow>
          (case error of
             UndefinedError _ \<Rightarrow>
               log_and_raise log_failure [ArgDevice obj, ArgString (undefined_error_msg template)]
           | TemplateSyntaxError lineno _ \<Rightarrow>
               log_and_raise log_failure [ArgDevice obj, ArgString (syntax_error_msg lineno template)]
           | TemplateAssertionError lineno _ \<Rightarrow>
               log_and_raise log_failure [ArgDevice obj, ArgString (syntax_error_msg lineno template)]
           | TemplateError _ \<Rightarrow>
               log_and_raise log_failure [ArgString (template_error_msg template)]
           | _ \<Rightarrow> (Inl error, [])))"

subsection \<open>The pipeline path: \<^verbatim>\<open>render_secrets\<close>\<close>

record GoldenConfig =
  device :: Device
  intended_config :: "string option"

record HttpRequest =
  user :: User

text \<open>
  What \<^verbatim>\<open>render_secrets\<close> calls outside this repository: \<^verbatim>\<open>jinja_env.from_string\<close>
  (compiles a text to a template of type \<open>'t\<close>), \<^verbatim>\<open>template.render(device_data)\<close>
  (which may call the secret filter the environment holds, so the model hands the
  filter to it) and \<^verbatim>\<open>graph_ql_query\<close> (returns a status and the context data of
  type \<open>'c\<close>). The two \<^verbatim>\<open>encrypt\<close> filters of \<^verbatim>\<open>netutils\<close> are part of \<open>render\<close>.
\<close>

record ('t, 'c) render_backend =
  from_string :: "string \<Rightarrow> exc + 't"
  render :: "(string \<Rightarrow> string \<Rightarrow> string \<Rightarrow> exc + string option) \<Rightarrow> 't \<Rightarrow> 'c \<Rightarrow> exc + string"
  graph_ql_query :: "HttpRequest \<Rightarrow> Device \<Rightarrow> string \<Rightarrow> exc + (nat \<times> 'c)"

text \<open>What \<^verbatim>\<open>render_secrets\<close> did, in order, beside its result.\<close>

datatype event =
    EvFromString string
  | EvSettingsMap
  | EvGraphQL string
  | EvRender

text \<open>The three \<^verbatim>\<open>except\<close> clauses around \<^verbatim>\<open>template.render(device_data)\<close>.\<close>

definition convert_render_error :: "exc \<Rightarrow> exc" where
  "convert_render_error error =
     (case error of
        UndefinedError msg \<Rightarrow> RenderConfigToPushError
          (''Jinja encountered and UndefinedError: '' @ msg
           @ '', check the template for missing variable definitions.\<newline>'')
      | TemplateSyntaxError lineno _ \<Rightarrow> RenderConfigToPushError
          (''Jinja encountered a SyntaxError at line number '' @ str_nat lineno @ '',''
           @ ''check the template for invalid Jinja syntax.\<newline>'')
      | TemplateAssertionError lineno _ \<Rightarrow> RenderConfigToPushError
          (''Jinja encountered a SyntaxError at line number '' @ str_nat lineno @ '',''
           @ ''check the template for invalid Jinja syntax.\<newline>'')
      | TemplateError _ \<Rightarrow> RenderConfigToPushError
          ''Jinja encountered an unexpected TemplateError; check the template for correctness\<newline>''
      | _ \<Rightarrow> error)"

definition no_reference_msg :: string where
  "no_reference_msg = ''No reference Intended configuration to render secrets from''"

text \<open>
  \<^verbatim>\<open>config_to_push or configs.intended_config\<close>: the first operand when it is not
  empty, the second (a string or \<^verbatim>\<open>None\<close>) otherwise.
\<close>

definition config_to_render :: "string \<Rightarrow> GoldenConfig \<Rightarrow> string option" where
  "config_to_render config_to_push configs =
     (if config_to_push \<noteq> [] then Some config_to_push else intended_config configs)"

definition render_with_context ::
  "secrets_backend \<Rightarrow> ('t, 'c) render_backend \<Rightarrow> GoldenConfigSetting list \<Rightarrow> Device list
     \<Rightarrow> GoldenConfig \<Rightarrow> HttpRequest \<Rightarrow> 't \<Rightarrow> (exc + string) \<times> event list" where
  "render_with_context B J objects Device_objects configs request template =
     (case get_device_to_settings_map objects
             (filter (\<lambda>d. pk d = pk (device configs)) Device_objects) of
        Inl e \<Rightarrow> (Inl e, [EvSettingsMap])
      | Inr m \<Rightarrow>
          (case m (pk (device configs)) of
             None \<Rightarrow> (Inl (KeyError (pk (device configs))), [EvSettingsMap])
           | Some settings \<Rightarrow>
               (case sot_agg_query settings of
                  None \<Rightarrow> (Inl (AttributeError ''query''), [EvSettingsMap])
                | Some q \<Rightarrow>
                    (case graph_ql_query J request (device configs) q of
                       Inl e \<Rightarrow> (Inl e, [EvSettingsMap, EvGraphQL q])
                     | Inr (_, device_data) \<Rightarrow>
                         (case render J (get_secret_by_secret_group_slug B (user request))
                                 template device_data of
                            Inr text \<Rightarrow> (Inr text, [EvSettingsMap, EvGraphQL q, EvRender])
                          | Inl error \<Rightarrow>
                              (Inl (convert_render_error error),
                               [EvSettingsMap, EvGraphQL q, EvRender]))))))"

definition render_secrets ::
  "secrets_backend \<Rightarrow> ('t, 'c) render_backend \<Rightarrow> GoldenConfigSetting list \<Rightarrow> Device list
     \<Rightarrow> string \<Rightarrow> GoldenConfig \<Rightarrow> HttpRequest \<Rightarrow> (exc + string) \<times> event list" where
  "render_secrets B J objects Device_objects config_to_push configs request =
     (case config_to_render config_to_push configs of
        None \<Rightarrow> (Inl (RenderConfigToPushError no_reference_msg), [])
      | Some text \<Rightarrow>
          if text = [] then (Inl (RenderConfigToPushError no_reference_msg), [])
          else
            (case from_string J text of
               Inl error \<Rightarrow>
                 (case error of
                    TemplateAssertionError _ tae \<Rightarrow>
                      (Inr (''Jinja encountered an TemplateAssertionError: '' @ [CHR 0x27] @ tae
                            @ [CHR 0x27] @ ''; check the template for correctness''),
                       [EvFromString text])
                  | _ \<Rightarrow> (Inl error, [EvFromString text]))
             | Inr template \<Rightarrow>
                 (let (result, events) =
                        render_with_context B J objects Device_objects configs request template
                  in (result, EvFromString text # events))))"

section \<open>Push-Artifact Pipeline: \<^verbatim>\<open>get_config_to_push\<close>\<close>

text \<open>
  A registered callable: \<open>fn_name\<close> is its \<^verbatim>\<open>__name__\<close>, \<open>call\<close> the function
  \<^verbatim>\<open>func(config_to_push, configs, request)\<close>. \<open>plugin_cfg\<close> holds the two keys of
  \<^verbatim>\<open>PLUGIN_CFG\<close> the pipeline reads, \<open>None\<close> for a missing key.
\<close>

record push_callable =
  fn_name :: string
  call :: "string \<Rightarrow> GoldenConfig \<Rightarrow> HttpRequest \<Rightarrow> exc + string"

record plugin_cfg =
  config_push_callable :: "push_callable list option"
  config_push_subscribed :: "string list option"

text \<open>
  The pipeline records each call of a stage: its name, the \<^verbatim>\<open>config_to_push\<close> it
  received and what it returned or raised.
\<close>

type_synonym invocation = "string \<times> string \<times> (exc + string)"

text \<open>
  The state of the two nested loops after a step: go on with a new
  \<^verbatim>\<open>config_to_push\<close>, leave the function with \<^verbatim>\<open>return\<close>, or an exception that no
  \<^verbatim>\<open>except\<close> clause catches.
\<close>

datatype flow = Continue string | Return string | Raise exc

definition find_error_msg :: "string \<Rightarrow> string" where
  "find_error_msg error = ''Find an error rendering the configuration to push: '' @ error"

definition on_error :: "exc \<Rightarrow> flow" where
  "on_error error =
     (case error of RenderConfigToPushError msg \<Rightarrow> Return (find_error_msg msg) | _ \<Rightarrow> Raise error)"

fun inner_loop ::
  "push_callable list \<Rightarrow> string \<Rightarrow> GoldenConfig \<Rightarrow> HttpRequest \<Rightarrow> string
     \<Rightarrow> flow \<times> invocation list" where
  "inner_loop [] func_name configs request config_to_push = (Continue config_to_push, [])"
| "inner_loop (func # rest) func_name configs request config_to_push =
     (if fn_name func = func_name then
        (case call func config_to_push configs request of
           Inl error \<Rightarrow> (on_error error, [(func_name, config_to_push, Inl error)])
         | Inr out \<Rightarrow>
             (let (fl, tr) = inner_loop rest func_name configs request out
              in (fl, (func_name, config_to_push, Inr out) # tr)))
      else inner_loop rest func_name configs request config_to_push)"

fun outer_loop ::
  "push_callable list \<Rightarrow> string list \<Rightarrow> GoldenConfig \<Rightarrow> HttpRequest \<Rightarrow> string
     \<Rightarrow> (exc + string) \<times> invocation list" where
  "outer_loop callables [] configs request config_to_push = (Inr config_to_push, [])"
| "outer_loop callables (func_name # rest) configs request config_to_push =
     (case inner_loop callables func_name configs request config_to_push of
        (Continue out, tr) \<Rightarrow>
          (let (result, tr') = outer_loop callables rest configs request out
           in (result, tr @ tr'))
      | (Return text, tr) \<Rightarrow> (Inr text, tr)
      | (Raise error, tr) \<Rightarrow> (Inl error, tr))"

definition render_secrets_callable ::
  "secrets_backend \<Rightarrow> ('t, 'c) render_backend \<Rightarrow> GoldenConfigSetting list \<Rightarrow> Device list
     \<Rightarrow> push_callable" where
  "render_secrets_callable B J objects Device_objects =
     \<lparr>fn_name = ''render_secrets'',
      call = (\<lambda>config_to_push configs request.
                fst (render_secrets B J objects Device_objects config_to_push configs request))\<rparr>"

definition push_callables ::
  "secrets_backend \<Rightarrow> ('t, 'c) render_backend \<Rightarrow> GoldenConfigSetting list \<Rightarrow> Device list
     \<Rightarrow> plugin_cfg \<Rightarrow> push_callable list" where
  "push_callables B J objects Device_objects cfg =
     [render_secrets_callable B J objects Device_objects]
     @ (case config_push_callable cfg of None \<Rightarrow> [] | Some cs \<Rightarrow> cs)"

definition push_subscribed :: "plugin_cfg \<Rightarrow> string list option \<Rightarrow> string list" where
  "push_subscribed cfg custom_subscribed =
     (case custom_subscribed of
        Some (n # ns) \<Rightarrow> n # ns
      | _ \<Rightarrow>
          (case config_push_subscribed cfg of
             Some (n # ns) \<Rightarrow> n # ns
           | _ \<Rightarrow> [''render_secrets'']))"

definition get_config_to_push ::
  "secrets_backend \<Rightarrow> ('t, 'c) render_backend \<Rightarrow> GoldenConfigSetting list \<Rightarrow> Device list
     \<Rightarrow> plugin_cfg \<Rightarrow> GoldenConfig \<Rightarrow> HttpRequest \<Rightarrow> string list option
     \<Rightarrow> (exc + string) \<times> invocation list" where
  "get_config_to_push B J objects Device_objects cfg configs request custom_subscribed =
     outer_loop (push_callables B J objects Device_objects cfg)
       (push_subscribed cfg custom_subscribed) configs request []"

section \<open>Definitions used by the statements\<close>

subsection \<open>Device Settings Resolver\<close>

text \<open>What the loop stores for one device: the setting of the first group, if any.\<close>

definition pick :: "GoldenConfigSetting list \<Rightarrow> Device \<Rightarrow> GoldenConfigSetting option" where
  "pick objects d =
     (case order_by_weight_desc objects (exclude_isnull objects (dynamic_groups d)) of
        [] \<Rightarrow> None
      | g # _ \<Rightarrow> golden_config_setting objects g)"

subsection \<open>Scope Query Builder, as the spec words it\<close>

text \<open>
  The devices a group's filter evaluates to, and the base scope in the words of the
  spec: unrestricted when some configured group has the filter \<^verbatim>\<open>{}\<close>, otherwise
  the union of the evaluated filters of the configured groups.
\<close>

definition evaluated_filter ::
  "(DynamicGroup \<Rightarrow> Device Q) \<Rightarrow> Device list \<Rightarrow> DynamicGroup \<Rightarrow> Device list" where
  "evaluated_filter generate_query Device_objects g =
     objects_filter Device_objects (generate_query g)"

definition spec_base_scope ::
  "(DynamicGroup \<Rightarrow> Device Q) \<Rightarrow> GoldenConfigSetting list \<Rightarrow> Device list \<Rightarrow> Device list" where
  "spec_base_scope generate_query objects Device_objects =
     (if \<exists>obj \<in> set objects. iexact (filter_expr (dynamic_group obj)) ''{}''
      then Device_objects
      else filter (\<lambda>d. \<exists>obj \<in> set objects.
                d \<in> set (evaluated_filter generate_query Device_objects (dynamic_group obj)))
             Device_objects)"

subsection \<open>Push-Artifact Pipeline, as a run over a list of stages\<close>

text \<open>
  \<open>run_in_order\<close> calls the stages of a list one after the other, each on the output
  of the one before, and stops at the first that raises. \<open>matching\<close> are all registered
  callables of a name, in the order of the registry; \<open>first_matching\<close> is the first of
  them only, as the spec words the pipeline.
\<close>

fun run_in_order ::
  "push_callable list \<Rightarrow> GoldenConfig \<Rightarrow> HttpRequest \<Rightarrow> string \<Rightarrow> flow \<times> invocation list" where
  "run_in_order [] configs request current_output = (Continue current_output, [])"
| "run_in_order (stage # stages) configs request current_output =
     (case call stage current_output configs request of
        Inl error \<Rightarrow> (on_error error, [(fn_name stage, current_output, Inl error)])
      | Inr out \<Rightarrow>
          (let (fl, tr) = run_in_order stages configs request out
           in (fl, (fn_name stage, current_output, Inr out) # tr)))"

definition flow_result :: "flow \<Rightarrow> exc + string" where
  "flow_result fl =
     (case fl of Continue c \<Rightarrow> Inr c | Return returned \<Rightarrow> Inr returned | Raise e \<Rightarrow> Inl e)"

definition matching :: "push_callable list \<Rightarrow> string \<Rightarrow> push_callable list" where
  "matching callables func_name = filter (\<lambda>func. fn_name func = func_name) callables"

definition first_matching :: "push_callable list \<Rightarrow> string \<Rightarrow> push_callable list" where
  "first_matching callables func_name =
     (case find (\<lambda>func. fn_name func = func_name) callables of
        None \<Rightarrow> []
      | Some func \<Rightarrow> [func])"

text \<open>
  The form of a finished run: every recorded call returned, except that the last one
  raised when the run ended with \<open>Return\<close> (a \<open>RenderConfigToPushError\<close>) or with
  \<open>Raise\<close> (any other exception).
\<close>

definition all_returned :: "invocation list \<Rightarrow> bool" where
  "all_returned tr = list_all (\<lambda>x. \<exists>out. snd (snd x) = Inr out) tr"

definition stopped_shape :: "flow \<Rightarrow> invocation list \<Rightarrow> bool" where
  "stopped_shape fl tr =
     (case fl of
        Continue _ \<Rightarrow> all_returned tr
      | Return returned \<Rightarrow>
          (\<exists>tr' x msg. tr = tr' @ [x] \<and> all_returned tr'
             \<and> snd (snd x) = Inl (RenderConfigToPushError msg) \<and> returned = find_error_msg msg)
      | Raise e \<Rightarrow>
          (\<exists>tr' x. tr = tr' @ [x] \<and> all_returned tr'
             \<and> snd (snd x) = Inl e \<and> (\<forall>msg. e \<noteq> RenderConfigToPushError msg)))"

section \<open>Example data\<close>

text \<open>
  A small directory used to run the functions on concrete inputs: three groups, two of
  them with a setting (weights 5 and 10), a third setting for the group with the filter
  \<^verbatim>\<open>{}\<close>, and three devices. \<open>member_query\<close> is a Group Membership Resolver that
  agrees with \<open>dynamic_groups\<close>; \<open>id_filter\<close> is a filter set that reads the key
  \<^verbatim>\<open>id\<close> of the query.
\<close>

definition G1 :: DynamicGroup where
  "G1 = \<lparr>dg_pk = ''g1'', filter_expr = ''{\"site\": [\"ams\"]}''\<rparr>"

definition G2 :: DynamicGroup where
  "G2 = \<lparr>dg_pk = ''g2'', filter_expr = ''{\"role\": [\"edge\"]}''\<rparr>"

definition G3 :: DynamicGroup where
  "G3 = \<lparr>dg_pk = ''g3'', filter_expr = ''{}''\<rparr>"

definition S5 :: GoldenConfigSetting where
  "S5 = \<lparr>gcs_pk = ''s5'', weight = 5, dynamic_group = G1, sot_agg_query = Some ''query { a }''\<rparr>"

definition S10 :: GoldenConfigSetting where
  "S10 = \<lparr>gcs_pk = ''s10'', weight = 10, dynamic_group = G2, sot_agg_query = Some ''query { b }''\<rparr>"

definition S_all :: GoldenConfigSetting where
  "S_all = \<lparr>gcs_pk = ''s1'', weight = 1, dynamic_group = G3, sot_agg_query = None\<rparr>"

definition D1 :: Device where
  "D1 = \<lparr>pk = ''d1'', name = ''ams-edge-01'', platform = Some ''ios'',
          dynamic_groups = [G1, G3, G2]\<rparr>"

definition D2 :: Device where
  "D2 = \<lparr>pk = ''d2'', name = ''ams-core-01'', platform = None, dynamic_groups = [G1, G3]\<rparr>"

definition D3 :: Device where
  "D3 = \<lparr>pk = ''d3'', name = ''nyc-lab-01'', platform = None, dynamic_groups = [G3]\<rparr>"

definition member_query :: "DynamicGroup \<Rightarrow> Device Q" where
  "member_query g = Q_cond (\<lambda>d. g \<in> set (dynamic_groups d))"

definition id_filter :: "query \<Rightarrow> Device \<Rightarrow> bool" where
  "id_filter q d = (case q ''id'' of None \<Rightarrow> True | Some ids \<Rightarrow> pk d \<in> set ids)"

definition only_D1 :: job_data where
  "only_D1 = \<lparr>related = Map.empty, tag = [], data_device = Some (DeviceInstance D1)\<rparr>"

definition only_D3 :: job_data where
  "only_D3 = \<lparr>related = Map.empty, tag = [], data_device = Some (DeviceInstance D3)\<rparr>"

text \<open>
  The secrets of the repository's test case (\<^verbatim>\<open>test_helpers.py\<close>): one secrets group
  with one generic secret, a superuser, a plain user, and the plain user after the
  permission was granted.
\<close>

definition test_backend :: secrets_backend where
  "test_backend =
     \<lparr>permission_is_exempt = (\<lambda>_. False),
      SecretsGroup_objects = [\<lparr>slug = ''secrets-group-1''\<rparr>],
      get_secret_value = (\<lambda>g access_type secret_type.
         if access_type = ''Generic'' \<and> secret_type = ''secret''
         then Inr ''supersecretvalue''
         else Inl (OtherException ''SecretValueNotFoundError''))\<rparr>"

definition user_admin_1 :: User where
  "user_admin_1 = \<lparr>is_superuser = True, is_authenticated = True, get_all_permissions = []\<rparr>"

definition user_2 :: User where
  "user_2 = \<lparr>is_superuser = False, is_authenticated = True, get_all_permissions = []\<rparr>"

definition user_2_granted :: User where
  "user_2_granted = \<lparr>is_superuser = False, is_authenticated = True,
                      get_all_permissions = [''extras.view_secretsgroup'']\<rparr>"

text \<open>
  A template engine small enough to run: a template is its text, three texts raise one
  error each, one calls the secret filter, and every other text renders to itself and
  the context data (the device's name).
\<close>

definition test_jinja :: "(string, string) render_backend" where
  "test_jinja =
     \<lparr>from_string = (\<lambda>source. if source = ''{% if %}''
                        then Inl (TemplateSyntaxError 1 ''Expected an expression'')
                        else Inr source),
      render = (\<lambda>secret_filter template device_data.
                  if template = ''{{ missing }}'' then Inl (UndefinedError ''missing is undefined'')
                  else if template = ''{% include x %}'' then Inl (TemplateError ''boom'')
                  else if template = ''{{ sg | get_secret }}'' then
                    (case secret_filter ''secrets-group-1'' ''secret'' ''Generic'' of
                       Inl e \<Rightarrow> Inl e
                     | Inr None \<Rightarrow> Inr ''None''
                     | Inr (Some v) \<Rightarrow> Inr v)
                  else Inr (template @ '' for '' @ device_data)),
      graph_ql_query = (\<lambda>request d q. Inr (200, name d))\<rparr>"

definition test_render_jinja2 :: "string \<Rightarrow> Device \<Rightarrow> exc + string" where
  "test_render_jinja2 template obj =
     (if template = ''{{ obj.missing }}'' then Inl (UndefinedError ''missing is undefined'')
      else if template = ''{% include x %}'' then Inl (TemplateError ''boom'')
      else Inr (template @ '' for '' @ name obj))"

definition quiet_logger :: "log_arg list \<Rightarrow> exc option" where
  "quiet_logger args = None"

definition append_a :: push_callable where
  "append_a = \<lparr>fn_name = ''encrypt'', call = (\<lambda>c configs request. Inr (c @ ''A''))\<rparr>"

definition append_b :: push_callable where
  "append_b = \<lparr>fn_name = ''encrypt'', call = (\<lambda>c configs request. Inr (c @ ''B''))\<rparr>"

definition failing :: push_callable where
  "failing = \<lparr>fn_name = ''fail'',
               call = (\<lambda>c configs request. Inl (RenderConfigToPushError ''no key''))\<rparr>"

definition test_cfg :: plugin_cfg where
  "test_cfg = \<lparr>config_push_callable = Some [append_a, failing, append_b],
                config_push_subscribed = None\<rparr>"

definition test_request :: HttpRequest where
  "test_request = \<lparr>user = user_2\<rparr>"

definition test_configs :: GoldenConfig where
  "test_configs = \<lparr>device = D1, intended_config = Some ''hostname r1''\<rparr>"

definition no_intended :: GoldenConfig where
  "no_intended = \<lparr>device = D1, intended_config = None\<rparr>"

definition undefined_configs :: GoldenConfig where
  "undefined_configs = \<lparr>device = D1, intended_config = Some ''{{ missing }}''\<rparr>"

definition include_configs :: GoldenConfig where
  "include_configs = \<lparr>device = D1, intended_config = Some ''{% include x %}''\<rparr>"

definition syntax_configs :: GoldenConfig where
  "syntax_configs = \<lparr>device = D1, intended_config = Some ''{% if %}''\<rparr>"

section \<open>The Device Settings Resolver chooses the highest weight\<close>

lemma sort_key_head:
  assumes "sort_key f xs = y # ys"
  shows "y \<in> set xs \<and> (\<forall>x \<in> set xs. f y \<le> f x)"
proof -
  have s: "sorted (map f (sort_key f xs))" by (rule sorted_sort_key)
  have e: "set (sort_key f xs) = set xs" by simp
  from e assms have y: "y \<in> set xs" by (metis list.set_intros(1))
  from s assms have "\<forall>x \<in> set ys. f y \<le> f x" by simp
  with e assms have "\<forall>x \<in> set xs. f y \<le> f x" by (metis order_refl set_ConsD)
  with y show ?thesis by simp
qed

lemma first_has_setting:
  assumes "order_by_weight_desc objects (exclude_isnull objects gs) = g # rest"
  shows "golden_config_setting objects g \<noteq> None"
proof -
  from assms have "g \<in> set (exclude_isnull objects gs)"
    unfolding order_by_weight_desc_def using sort_key_head by fastforce
  then show ?thesis by (simp add: exclude_isnull_def)
qed

lemma settings_map_loop_result:
  "\<exists>m'. settings_map_loop objects qs m = Inr m' \<and>
        (\<forall>k. k \<notin> pk ` set qs \<longrightarrow> m' k = m k) \<and>
        (distinct (map pk qs) \<longrightarrow>
           (\<forall>d \<in> set qs. m' (pk d) =
              (case pick objects d of None \<Rightarrow> m (pk d) | Some s \<Rightarrow> Some s)))"
proof (induction qs arbitrary: m)
  case Nil
  then show ?case by simp
next
  case (Cons d qs)
  show ?case
  proof (cases "order_by_weight_desc objects (exclude_isnull objects (dynamic_groups d))")
    case Nil
    then have p: "pick objects d = None" by (simp add: pick_def)
    from Cons.IH [of m] obtain m' where
      m': "settings_map_loop objects qs m = Inr m'"
          "\<forall>k. k \<notin> pk ` set qs \<longrightarrow> m' k = m k"
          "distinct (map pk qs) \<longrightarrow>
             (\<forall>d \<in> set qs. m' (pk d) =
                (case pick objects d of None \<Rightarrow> m (pk d) | Some s \<Rightarrow> Some s))"
      by blast
    from Nil m' p show ?thesis by auto
  next
    case (Cons g rest)
    with first_has_setting obtain s where s: "golden_config_setting objects g = Some s" by blast
    with Cons have p: "pick objects d = Some s" by (simp add: pick_def)
    from Cons.IH [of "m(pk d \<mapsto> s)"] obtain m' where
      m': "settings_map_loop objects qs (m(pk d \<mapsto> s)) = Inr m'"
          "\<forall>k. k \<notin> pk ` set qs \<longrightarrow> m' k = (m(pk d \<mapsto> s)) k"
          "distinct (map pk qs) \<longrightarrow>
             (\<forall>d' \<in> set qs. m' (pk d') =
                (case pick objects d' of None \<Rightarrow> (m(pk d \<mapsto> s)) (pk d') | Some s \<Rightarrow> Some s))"
      by blast
    from Cons s m' p show ?thesis
      by (auto split: option.splits) (metis imageI)+
  qed
qed

lemma pick_None:
  "exclude_isnull objects (dynamic_groups d) = [] \<Longrightarrow> pick objects d = None"
  by (simp add: pick_def order_by_weight_desc_def)

lemma pick_Some:
  assumes "exclude_isnull objects (dynamic_groups d) \<noteq> []"
  shows "\<exists>g s. g \<in> set (exclude_isnull objects (dynamic_groups d)) \<and>
           golden_config_setting objects g = Some s \<and> pick objects d = Some s \<and>
           (\<forall>g' \<in> set (exclude_isnull objects (dynamic_groups d)). \<forall>s'.
               golden_config_setting objects g' = Some s' \<longrightarrow> weight s' \<le> weight s)"
proof -
  let ?E = "exclude_isnull objects (dynamic_groups d)"
  from assms obtain g rest where gr: "order_by_weight_desc objects ?E = g # rest"
    unfolding order_by_weight_desc_def
    by (metis length_sort list.size(3) neq_Nil_conv length_0_conv)
  then have h: "g \<in> set ?E" "\<forall>x \<in> set ?E. weight_key objects g \<le> weight_key objects x"
    unfolding order_by_weight_desc_def using sort_key_head by fastforce+
  from gr first_has_setting obtain s where s: "golden_config_setting objects g = Some s"
    by blast
  from gr s have p: "pick objects d = Some s" by (simp add: pick_def)
  from h(2) s have "\<forall>g' \<in> set ?E. \<forall>s'.
      golden_config_setting objects g' = Some s' \<longrightarrow> weight s' \<le> weight s"
    by (auto simp: weight_key_def split: option.splits)
  with h(1) s p show ?thesis by blast
qed

text \<open>
  Claim C1. For every device of the input queryset (a queryset holds a device once, so
  the primary keys are distinct), \<^verbatim>\<open>get_device_to_settings_map\<close> returns a mapping
  without raising; if some group of the device has a setting, the mapping gives the
  device's id the setting of such a group, and no group of the device has a setting of a
  higher weight; if no group of the device has a setting, the id is absent from the
  mapping. The statement holds for every order of \<open>dynamic_groups\<close>, so for every way
  the database orders groups of equal weight.
\<close>

theorem get_device_to_settings_map_highest_weight:
  assumes "distinct (map pk queryset)" and "d \<in> set queryset"
  shows "\<exists>m. get_device_to_settings_map objects queryset = Inr m \<and>
     (if \<forall>g \<in> set (dynamic_groups d). golden_config_setting objects g = None
      then m (pk d) = None
      else \<exists>g \<in> set (dynamic_groups d). \<exists>s.
             golden_config_setting objects g = Some s \<and> m (pk d) = Some s \<and>
             (\<forall>g' \<in> set (dynamic_groups d). \<forall>s'.
                 golden_config_setting objects g' = Some s' \<longrightarrow> weight s' \<le> weight s))"
proof -
  let ?E = "exclude_isnull objects (dynamic_groups d)"
  from settings_map_loop_result [of objects queryset Map.empty] assms obtain m where
    m: "get_device_to_settings_map objects queryset = Inr m"
       "m (pk d) = pick objects d"
    by (auto simp: get_device_to_settings_map_def split: option.splits)
  show ?thesis
  proof (cases "\<forall>g \<in> set (dynamic_groups d). golden_config_setting objects g = None")
    case True
    then have "?E = []" by (auto simp: exclude_isnull_def filter_empty_conv)
    with m True pick_None show ?thesis by auto
  next
    case False
    then have "?E \<noteq> []" by (auto simp: exclude_isnull_def filter_empty_conv)
    from pick_Some [OF this] obtain g s where
      "g \<in> set ?E" "golden_config_setting objects g = Some s" "pick objects d = Some s"
      "\<forall>g' \<in> set ?E. \<forall>s'. golden_config_setting objects g' = Some s' \<longrightarrow> weight s' \<le> weight s"
      by blast
    with m False show ?thesis by (auto simp: exclude_isnull_def)
  qed
qed

text \<open>
  The example of the spec: the device \<open>D1\<close> is in the groups \<open>G1\<close> (setting of weight 5),
  \<open>G3\<close> (no setting) and \<open>G2\<close> (setting of weight 10); it gets the setting of weight 10.
\<close>

theorem get_device_to_settings_map_highest_weight_witness:
  "distinct (map pk [D1]) \<and> D1 \<in> set [D1] \<and>
   (\<exists>m. get_device_to_settings_map [S5, S10] [D1] = Inr m \<and> m ''d1'' = Some S10)"
  using get_device_to_settings_map_highest_weight [of "[D1]" D1 "[S5, S10]"]
  by (auto simp: D1_def G1_def G2_def G3_def S5_def S10_def golden_config_setting_def)

section \<open>The Permission-Gated Secret Resolver\<close>

text \<open>
  Claim C2. For a principal that is not a superuser, in a call context that is not
  exempt, who is unauthenticated or lacks \<^verbatim>\<open>extras.view_secretsgroup\<close>,
  \<^verbatim>\<open>get_secret_by_secret_group_slug\<close> returns (it does not raise) the string
  "You have no permission to read this secret {slug}."; for a superuser the check is
  bypassed whatever the permissions are, and the call is the secret lookup.
\<close>

theorem get_secret_denial_and_superuser_bypass:
  "(\<not> is_superuser u \<and> \<not> permission_is_exempt B ''extras.view_secretsgroup'' \<and>
    (\<not> is_authenticated u \<or> ''extras.view_secretsgroup'' \<notin> set (get_all_permissions u))
      \<longrightarrow> get_secret_by_secret_group_slug B u secrets_group_slug secret_type access_type
            = Inr (Some (''You have no permission to read this secret ''
                         @ secrets_group_slug @ ''.'')))
   \<and> (is_superuser u
      \<longrightarrow> get_secret_by_secret_group_slug B u secrets_group_slug secret_type access_type
            = secret_lookup B secrets_group_slug secret_type access_type)"
  by (simp add: get_secret_by_secret_group_slug_def Let_def)

text \<open>
  The two cases of the repository's test: the plain user gets the denial that names
  \<^verbatim>\<open>secrets-group-1\<close>, the superuser without any permission gets the secret.
\<close>

theorem get_secret_denial_and_superuser_bypass_witness:
  "\<not> is_superuser user_2 \<and> \<not> permission_is_exempt test_backend ''extras.view_secretsgroup'' \<and>
   ''extras.view_secretsgroup'' \<notin> set (get_all_permissions user_2) \<and>
   get_secret_by_secret_group_slug test_backend user_2 ''secrets-group-1'' ''secret'' TYPE_GENERIC
     = Inr (Some ''You have no permission to read this secret secrets-group-1.'') \<and>
   is_superuser user_admin_1 \<and>
   get_secret_by_secret_group_slug test_backend user_admin_1 ''secrets-group-1'' ''secret''
       TYPE_GENERIC
     = Inr (Some ''supersecretvalue'')"
  using get_secret_denial_and_superuser_bypass
          [of user_2 test_backend "''secrets-group-1''" "''secret''" TYPE_GENERIC]
        get_secret_denial_and_superuser_bypass
          [of user_admin_1 test_backend "''secrets-group-1''" "''secret''" TYPE_GENERIC]
  by (simp add: user_2_def user_admin_1_def test_backend_def TYPE_GENERIC_def secret_lookup_def
        objects_get_def instance_truth_def)

lemma secret_lookup_cases:
  "(\<exists>e. objects_get (SecretsGroup_objects B) sl = Inl e \<and> secret_lookup B sl st at = Inl e)
   \<or> (\<exists>g e. objects_get (SecretsGroup_objects B) sl = Inr g
             \<and> get_secret_value B g at st = Inl e \<and> secret_lookup B sl st at = Inl e)
   \<or> (\<exists>g v. objects_get (SecretsGroup_objects B) sl = Inr g
             \<and> get_secret_value B g at st = Inr v \<and> secret_lookup B sl st at = Inr (Some v))"
  by (auto simp: secret_lookup_def instance_truth_def split: sum.splits)

text \<open>
  Claim C10. No call of \<^verbatim>\<open>get_secret_by_secret_group_slug\<close> returns \<^verbatim>\<open>None\<close>. A
  call that passes the authorization gate (superuser, exempt context, or authenticated
  with the permission) raises what \<^verbatim>\<open>SecretsGroup.objects.get\<close> raises, or raises
  what \<^verbatim>\<open>get_secret_value\<close> raises, or returns the string \<^verbatim>\<open>get_secret_value\<close>
  returns.
\<close>

theorem get_secret_never_returns_none:
  "get_secret_by_secret_group_slug B u sl st at \<noteq> Inr None \<and>
   (is_superuser u \<or> permission_is_exempt B ''extras.view_secretsgroup'' \<or>
    (is_authenticated u \<and> ''extras.view_secretsgroup'' \<in> set (get_all_permissions u))
    \<longrightarrow>
      (\<exists>e. objects_get (SecretsGroup_objects B) sl = Inl e
            \<and> get_secret_by_secret_group_slug B u sl st at = Inl e)
      \<or> (\<exists>g e. objects_get (SecretsGroup_objects B) sl = Inr g
                \<and> get_secret_value B g at st = Inl e
                \<and> get_secret_by_secret_group_slug B u sl st at = Inl e)
      \<or> (\<exists>g v. objects_get (SecretsGroup_objects B) sl = Inr g
                \<and> get_secret_value B g at st = Inr v
                \<and> get_secret_by_secret_group_slug B u sl st at = Inr (Some v)))"
proof -
  have l: "secret_lookup B sl st at \<noteq> Inr None"
    using secret_lookup_cases [of B sl st at] by auto
  have a: "get_secret_by_secret_group_slug B u sl st at \<noteq> Inr None"
    using l by (simp add: get_secret_by_secret_group_slug_def Let_def)
  have b: "is_superuser u \<or> permission_is_exempt B ''extras.view_secretsgroup'' \<or>
    (is_authenticated u \<and> ''extras.view_secretsgroup'' \<in> set (get_all_permissions u))
    \<Longrightarrow> get_secret_by_secret_group_slug B u sl st at = secret_lookup B sl st at"
    by (auto simp: get_secret_by_secret_group_slug_def Let_def)
  show ?thesis using a b secret_lookup_cases [of B sl st at] by presburger
qed

text \<open>
  The user with the permission gets the secret, the failure of the Secret Store for a
  secret type the group does not hold, and \<open>DoesNotExist\<close> for a missing group.
\<close>

theorem get_secret_never_returns_none_witness:
  "is_authenticated user_2_granted \<and>
   ''extras.view_secretsgroup'' \<in> set (get_all_permissions user_2_granted) \<and>
   get_secret_by_secret_group_slug test_backend user_2_granted ''secrets-group-1'' ''secret''
       TYPE_GENERIC
     = Inr (Some ''supersecretvalue'') \<and>
   get_secret_by_secret_group_slug test_backend user_2_granted ''secrets-group-1'' ''password''
       TYPE_GENERIC
     = Inl (OtherException ''SecretValueNotFoundError'') \<and>
   get_secret_by_secret_group_slug test_backend user_2_granted ''no-such-group'' ''secret''
       TYPE_GENERIC
     = Inl DoesNotExist"
  using get_secret_never_returns_none
          [of test_backend user_2_granted "''secrets-group-1''" "''secret''" TYPE_GENERIC]
        get_secret_never_returns_none
          [of test_backend user_2_granted "''secrets-group-1''" "''password''" TYPE_GENERIC]
        get_secret_never_returns_none
          [of test_backend user_2_granted "''no-such-group''" "''secret''" TYPE_GENERIC]
  by (simp add: user_2_granted_def test_backend_def TYPE_GENERIC_def objects_get_def)

section \<open>The Scope Query Builder\<close>

subsection \<open>The filter \<^verbatim>\<open>{}\<close>\<close>

lemma upper_char_fix:
  assumes "of_char x = (n::nat)" "n < 65 \<or> 122 < n"
  shows "upper_char c = x \<longleftrightarrow> c = x"
proof
  assume "c = x"
  with assms show "upper_char c = x" by (auto simp: upper_char_def Let_def)
next
  assume u: "upper_char c = x"
  show "c = x"
  proof (cases "97 \<le> (of_char c :: nat) \<and> (of_char c :: nat) \<le> 122")
    case False
    with u show ?thesis by (auto simp: upper_char_def Let_def)
  next
    case True
    with u have "char_of ((of_char c :: nat) - 32) = x" by (simp add: upper_char_def Let_def)
    then have "(of_char (char_of ((of_char c :: nat) - 32) :: char) :: nat) = n"
      using assms by simp
    then have "((of_char c :: nat) - 32) mod 256 = n" by (simp add: of_char_of)
    moreover from True have "(of_char c :: nat) - 32 < 256" by linarith
    ultimately have "(of_char c :: nat) - 32 = n" by simp
    with True assms(2) show ?thesis by linarith
  qed
qed

lemma upper_lbrace: "upper_char c = CHR ''{'' \<longleftrightarrow> c = CHR ''{''"
  by (rule upper_char_fix [of _ 123]) simp_all

lemma upper_rbrace: "upper_char c = CHR ''}'' \<longleftrightarrow> c = CHR ''}''"
  by (rule upper_char_fix [of _ 125]) simp_all

lemma iexact_braces: "iexact s ''{}'' \<longleftrightarrow> s = ''{}''"
proof -
  have a: "upper_char CHR ''{'' = CHR ''{''" using upper_lbrace by blast
  have b: "upper_char CHR ''}'' = CHR ''}''" using upper_rbrace by blast
  show ?thesis
    by (cases s; cases "tl s"; cases "tl (tl s)")
       (auto simp: iexact_def a b upper_lbrace upper_rbrace)
qed

subsection \<open>The base scope\<close>

lemma union_loop_cond:
  "\<exists>r. union_loop gq objs (Q_cond p0) = Q_cond r \<and>
       (\<forall>d. r d = (p0 d \<or> (\<exists>obj \<in> set objs. \<exists>p. gq (dynamic_group obj) = Q_cond p \<and> p d)))"
proof (induction objs arbitrary: p0)
  case Nil
  then show ?case by simp
next
  case (Cons obj objs)
  show ?case
  proof (cases "gq (dynamic_group obj)")
    case Q_empty
    with Cons.IH [of p0] show ?thesis by auto
  next
    case (Q_cond p)
    with Cons.IH [of "\<lambda>row. p0 row \<or> p row"] show ?thesis by auto
  qed
qed

lemma union_loop_empty:
  "(if \<forall>obj \<in> set objs. gq (dynamic_group obj) = Q_empty
    then union_loop gq objs Q_empty = Q_empty
    else \<exists>r. union_loop gq objs Q_empty = Q_cond r \<and>
          (\<forall>d. r d = (\<exists>obj \<in> set objs. \<exists>p. gq (dynamic_group obj) = Q_cond p \<and> p d)))"
proof (induction objs)
  case Nil
  then show ?case by simp
next
  case (Cons obj objs)
  show ?case
  proof (cases "gq (dynamic_group obj)")
    case Q_empty
    with Cons.IH show ?thesis by (auto split: if_splits)
  next
    case (Q_cond p)
    with union_loop_cond [of gq objs p] show ?thesis by auto
  qed
qed

lemma filter_cong_pred: "(\<forall>d. r d = q d) \<Longrightarrow> filter r xs = filter q xs"
  by (induction xs) auto

text \<open>
  Claim C3, as the code has it. If some configured setting's group has the filter
  \<^verbatim>\<open>{}\<close>, the base scope is every device of the directory. Otherwise the base scope
  is the union of the devices matched by the non-empty queries that the configured groups
  generate; when no configured group generates a non-empty query, and so when no
  setting is configured at all, the base scope is again every device.
\<close>

theorem base_qs_scope:
  "((\<exists>obj \<in> set objects. iexact (filter_expr (dynamic_group obj)) ''{}'')
      \<longrightarrow> base_qs gq objects Device_objects = Device_objects)
   \<and> (\<not> (\<exists>obj \<in> set objects. iexact (filter_expr (dynamic_group obj)) ''{}'')
      \<longrightarrow> base_qs gq objects Device_objects =
           (if \<forall>obj \<in> set objects. gq (dynamic_group obj) = Q_empty then Device_objects
            else filter (\<lambda>d. \<exists>obj \<in> set objects. \<exists>p. gq (dynamic_group obj) = Q_cond p \<and> p d)
                   Device_objects))"
proof (intro conjI impI)
  assume "\<exists>obj \<in> set objects. iexact (filter_expr (dynamic_group obj)) ''{}''"
  then have "filter (\<lambda>obj. iexact (filter_expr (dynamic_group obj)) ''{}'') objects \<noteq> []"
    by (simp add: filter_empty_conv)
  then show "base_qs gq objects Device_objects = Device_objects"
    by (simp add: base_qs_def raw_qs_def objects_filter_def)
next
  assume "\<not> (\<exists>obj \<in> set objects. iexact (filter_expr (dynamic_group obj)) ''{}'')"
  then have "filter (\<lambda>obj. iexact (filter_expr (dynamic_group obj)) ''{}'') objects = []"
    by (simp add: filter_empty_conv)
  then have r: "raw_qs gq objects = union_loop gq objects Q_empty"
    by (simp add: raw_qs_def)
  show "base_qs gq objects Device_objects =
           (if \<forall>obj \<in> set objects. gq (dynamic_group obj) = Q_empty then Device_objects
            else filter (\<lambda>d. \<exists>obj \<in> set objects. \<exists>p. gq (dynamic_group obj) = Q_cond p \<and> p d)
                   Device_objects)"
  proof (cases "\<forall>obj \<in> set objects. gq (dynamic_group obj) = Q_empty")
    case True
    with union_loop_empty [of objects gq] r show ?thesis
      by (simp add: base_qs_def objects_filter_def)
  next
    case False
    with union_loop_empty [of objects gq] obtain rr where
      rr: "union_loop gq objects Q_empty = Q_cond rr"
          "\<forall>d. rr d = (\<exists>obj \<in> set objects. \<exists>p. gq (dynamic_group obj) = Q_cond p \<and> p d)"
      by auto
    from rr(2) have "filter rr Device_objects =
        filter (\<lambda>d. \<exists>obj \<in> set objects. \<exists>p. gq (dynamic_group obj) = Q_cond p \<and> p d)
          Device_objects"
      by (rule filter_cong_pred)
    moreover have "base_qs gq objects Device_objects = filter rr Device_objects"
      using r rr(1) by (simp add: base_qs_def objects_filter_def)
    moreover from False have
      "(if \<forall>obj \<in> set objects. gq (dynamic_group obj) = Q_empty then Device_objects
        else filter (\<lambda>d. \<exists>obj \<in> set objects. \<exists>p. gq (dynamic_group obj) = Q_cond p \<and> p d)
               Device_objects)
       = filter (\<lambda>d. \<exists>obj \<in> set objects. \<exists>p. gq (dynamic_group obj) = Q_cond p \<and> p d)
               Device_objects"
      by (rule if_not_P)
    ultimately show ?thesis by (simp only:)
  qed
qed

text \<open>
  With the settings of \<open>G1\<close> and \<open>G2\<close> the scope is the two devices in one of these
  groups; with a setting of the group \<open>G3\<close>, whose filter is \<^verbatim>\<open>{}\<close>, it is all three.
\<close>

theorem base_qs_scope_witness:
  "\<not> (\<exists>obj \<in> set [S5, S10]. iexact (filter_expr (dynamic_group obj)) ''{}'') \<and>
   base_qs member_query [S5, S10] [D1, D2, D3] = [D1, D2] \<and>
   (\<exists>obj \<in> set [S5, S_all]. iexact (filter_expr (dynamic_group obj)) ''{}'') \<and>
   base_qs member_query [S5, S_all] [D1, D2, D3] = [D1, D2, D3]"
proof -
  have n: "\<not> (\<exists>obj \<in> set [S5, S10]. iexact (filter_expr (dynamic_group obj)) ''{}'')"
    by (simp add: iexact_braces S5_def S10_def G1_def G2_def)
  have y: "\<exists>obj \<in> set [S5, S_all]. iexact (filter_expr (dynamic_group obj)) ''{}''"
    by (simp add: iexact_braces S_all_def G3_def)
  from n base_qs_scope [of "[S5, S10]" member_query "[D1, D2, D3]"]
  have "base_qs member_query [S5, S10] [D1, D2, D3] =
         (if \<forall>obj \<in> set [S5, S10]. member_query (dynamic_group obj) = Q_empty
          then [D1, D2, D3]
          else filter (\<lambda>d. \<exists>obj \<in> set [S5, S10]. \<exists>p.
                  member_query (dynamic_group obj) = Q_cond p \<and> p d) [D1, D2, D3])"
    by blast
  then have a: "base_qs member_query [S5, S10] [D1, D2, D3] = [D1, D2]"
    by (auto simp: member_query_def S5_def S10_def G1_def G2_def G3_def D1_def D2_def D3_def)
  from y base_qs_scope [of "[S5, S_all]" member_query "[D1, D2, D3]"]
  have b: "base_qs member_query [S5, S_all] [D1, D2, D3] = [D1, D2, D3]"
    by blast
  from n y a b show ?thesis by blast
qed

text \<open>
  Claim C3 as the spec states it fails when no setting is configured: the union of no
  filter is empty, and the code's base scope is the whole directory.
\<close>

theorem base_qs_not_union_counterexample:
  "base_qs member_query [] [D1] = [D1] \<and> spec_base_scope member_query [] [D1] = []"
  by (simp add: base_qs_def raw_qs_def objects_filter_def spec_base_scope_def)

subsection \<open>The three failures\<close>

lemma scope_errors_distinct:
  "EmptyBaseScope \<noteq> NoMatchingDevices"
  "MissingPlatform ds \<noteq> EmptyBaseScope"
  "MissingPlatform ds \<noteq> NoMatchingDevices"
  by (simp_all add: EmptyBaseScope_def NoMatchingDevices_def MissingPlatform_def)





lemma example_queries:
  "build_query empty_data ''id'' = None"
  "build_query only_D1 ''id'' = Some [''d1'']"
  "build_query only_D3 ''id'' = Some [''d3'']"
  by (simp_all add: build_query_def empty_data_def only_D1_def only_D3_def FIELDS_def
        D1_def D3_def)



text \<open>
  Claim C5, as the code has it. When no setting is configured, the base scope is every
  device of the directory, and \<^verbatim>\<open>get_job_filter\<close> fails with \<open>EmptyBaseScope\<close>
  exactly when the directory holds no device.
\<close>

theorem get_job_filter_no_settings:
  "(get_job_filter gq F [] Device_objects data = Inl EmptyBaseScope \<longleftrightarrow> Device_objects = [])
   \<and> base_qs gq [] Device_objects = Device_objects"
proof -
  have b: "base_qs gq [] Device_objects = Device_objects"
    by (simp add: base_qs_def raw_qs_def objects_filter_def)
  then show ?thesis
    using scope_errors_distinct scope_errors_distinct [symmetric]
    by (auto simp: get_job_filter_def Let_def)
qed

theorem get_job_filter_no_settings_witness:
  "get_job_filter member_query id_filter [] [] None = Inl EmptyBaseScope \<and>
   get_job_filter member_query id_filter [] [D1] None \<noteq> Inl EmptyBaseScope"
  using get_job_filter_no_settings [of member_query id_filter "[]" None]
        get_job_filter_no_settings [of member_query id_filter "[D1]" None]
  by simp

text \<open>
  Claim C5 as the spec states it fails: with no setting and one device (which has a
  platform) in the directory, \<^verbatim>\<open>get_job_filter\<close> returns the device.
\<close>

theorem get_job_filter_no_settings_counterexample:
  "get_job_filter member_query id_filter [] [D1] None = Inr [D1]"
  by (simp add: get_job_filter_def Let_def base_qs_def raw_qs_def objects_filter_def
        example_queries id_filter_def D1_def)

section \<open>The Push-Artifact Pipeline\<close>

subsection \<open>The nested loops are a run over the matching callables\<close>

lemma inner_loop_matching:
  "inner_loop callables func_name configs request c
     = run_in_order (matching callables func_name) configs request c"
  by (induction callables arbitrary: c) (auto simp: matching_def split: sum.splits)

lemma run_in_order_append:
  "run_in_order (xs @ ys) configs request c =
     (case run_in_order xs configs request c of
        (Continue out, tr) \<Rightarrow>
          (let (fl, tr') = run_in_order ys configs request out in (fl, tr @ tr'))
      | (fl, tr) \<Rightarrow> (fl, tr))"
proof (induction xs arbitrary: c)
  case Nil
  then show ?case by (simp split: prod.splits)
next
  case (Cons x xs)
  show ?case
  proof (cases "call x c configs request")
    case (Inl error)
    then show ?thesis by (cases error) (simp_all add: on_error_def)
  next
    case (Inr out)
    with Cons.IH [of out] show ?thesis
      by (auto split: prod.splits flow.splits)
  qed
qed

lemma outer_loop_plan:
  "outer_loop callables names configs request c =
     (let (fl, tr) = run_in_order (concat (map (matching callables) names)) configs request c
      in (flow_result fl, tr))"
proof (induction names arbitrary: c)
  case Nil
  then show ?case by (simp add: flow_result_def)
next
  case (Cons n names)
  show ?case
    by (simp add: inner_loop_matching run_in_order_append Cons.IH flow_result_def
          split: prod.splits flow.splits)
qed

subsection \<open>A run stops at the first stage that raises\<close>

lemma on_error_shape: "stopped_shape (on_error error) [(n, c, Inl error)]"
  by (cases error) (auto simp: on_error_def stopped_shape_def all_returned_def)

lemma stopped_shape_Cons:
  "stopped_shape fl tr \<Longrightarrow> stopped_shape fl ((n, c, Inr out) # tr)"
  by (cases fl) (auto simp: stopped_shape_def all_returned_def intro: exI [of _ "_ # _"])

lemma run_in_order_shape:
  "run_in_order stages configs request c = (fl, tr) \<Longrightarrow> stopped_shape fl tr"
proof (induction stages arbitrary: c fl tr)
  case Nil
  then show ?case by (auto simp: stopped_shape_def all_returned_def)
next
  case (Cons s stages)
  show ?case
  proof (cases "call s c configs request")
    case (Inl error)
    with Cons.prems on_error_shape show ?thesis by auto
  next
    case (Inr out)
    with Cons.prems obtain tr' where
      "run_in_order stages configs request out = (fl, tr')" "tr = (fn_name s, c, Inr out) # tr'"
      by (auto split: prod.splits)
    with Cons.IH stopped_shape_Cons show ?thesis by blast
  qed
qed

text \<open>
  Claim C6. \<^verbatim>\<open>get_config_to_push\<close> never raises \<open>RenderConfigToPushError\<close>; and
  whenever a call of a stage that it made raised \<open>RenderConfigToPushError\<close> with the
  message \<open>msg\<close>, that call is the last one it made (no later stage ran) and the result
  is the returned string "Find an error rendering the configuration to push: {msg}".
\<close>

theorem get_config_to_push_catches_render_error:
  "(let (result, trace) =
          get_config_to_push B J objects Device_objects cfg configs request custom_subscribed
    in (\<forall>msg. result \<noteq> Inl (RenderConfigToPushError msg))
     \<and> (\<forall>i msg. i < length trace \<and> snd (snd (trace ! i)) = Inl (RenderConfigToPushError msg)
          \<longrightarrow> Suc i = length trace
              \<and> result = Inr (''Find an error rendering the configuration to push: '' @ msg)))"
proof -
  obtain fl tr where r: "run_in_order
      (concat (map (matching (push_callables B J objects Device_objects cfg))
                 (push_subscribed cfg custom_subscribed))) configs request [] = (fl, tr)"
    by (cases "run_in_order
      (concat (map (matching (push_callables B J objects Device_objects cfg))
                 (push_subscribed cfg custom_subscribed))) configs request []") blast
  then have g: "get_config_to_push B J objects Device_objects cfg configs request custom_subscribed
                  = (flow_result fl, tr)"
    by (simp add: get_config_to_push_def outer_loop_plan)
  from r have s: "stopped_shape fl tr" by (rule run_in_order_shape)
  have a: "\<forall>msg. flow_result fl \<noteq> Inl (RenderConfigToPushError msg)"
    using s by (cases fl) (auto simp: flow_result_def stopped_shape_def)
  have b: "Suc i = length tr \<and> flow_result fl = Inr (find_error_msg msg)"
    if "i < length tr" "snd (snd (tr ! i)) = Inl (RenderConfigToPushError msg)" for i msg
  proof (cases fl)
    case (Continue c)
    with s that show ?thesis
      by (auto simp: stopped_shape_def all_returned_def list_all_length)
  next
    case (Return returned)
    with s obtain tr' x m where
      t: "tr = tr' @ [x]" "all_returned tr'" "snd (snd x) = Inl (RenderConfigToPushError m)"
         "returned = find_error_msg m"
      by (auto simp: stopped_shape_def)
    have "\<not> i < length tr'"
    proof
      assume "i < length tr'"
      with t(1,2) that(2) show False
        by (auto simp: all_returned_def list_all_length nth_append)
    qed
    with that(1) t(1) have i: "i = length tr'" by simp
    with t(1,3) that(2) have "m = msg" by simp
    with i t Return show ?thesis by (simp add: flow_result_def)
  next
    case (Raise e)
    with s obtain tr' x where
      t: "tr = tr' @ [x]" "all_returned tr'" "snd (snd x) = Inl e"
         "\<forall>msg. e \<noteq> RenderConfigToPushError msg"
      by (auto simp: stopped_shape_def)
    have "\<not> i < length tr'"
    proof
      assume "i < length tr'"
      with t(1,2) that(2) show False
        by (auto simp: all_returned_def list_all_length nth_append)
    qed
    with that(1) t(1) have i: "i = length tr'" by simp
    with t(1,3,4) that(2) show ?thesis by simp
  qed
  show ?thesis unfolding g using a b by (auto simp: find_error_msg_def)
qed

lemma test_pipeline_fail:
  "get_config_to_push test_backend test_jinja [S5, S10] [D1, D2, D3] test_cfg test_configs
     test_request (Some [''encrypt'', ''fail'', ''encrypt''])
   = (Inr ''Find an error rendering the configuration to push: no key'',
      [(''encrypt'', '''', Inr ''A''), (''encrypt'', ''A'', Inr ''AB''),
       (''fail'', ''AB'', Inl (RenderConfigToPushError ''no key''))])"
  by (simp add: get_config_to_push_def push_callables_def push_subscribed_def test_cfg_def
        render_secrets_callable_def append_a_def append_b_def failing_def on_error_def
        find_error_msg_def)

text \<open>
  The stage \<^verbatim>\<open>fail\<close> raises in the middle of the list \<^verbatim>\<open>encrypt, fail, encrypt\<close>:
  its call is the third and last, and the error string is returned.
\<close>

theorem get_config_to_push_catches_render_error_witness:
  "(let (result, trace) =
          get_config_to_push test_backend test_jinja [S5, S10] [D1, D2, D3] test_cfg test_configs
            test_request (Some [''encrypt'', ''fail'', ''encrypt''])
    in 2 < length trace \<and> snd (snd (trace ! 2)) = Inl (RenderConfigToPushError ''no key'')
       \<and> Suc 2 = length trace
       \<and> result = Inr ''Find an error rendering the configuration to push: no key'')"
  using get_config_to_push_catches_render_error
          [of test_backend test_jinja "[S5, S10]" "[D1, D2, D3]" test_cfg test_configs
              test_request "Some [''encrypt'', ''fail'', ''encrypt'']"]
  by (simp add: test_pipeline_fail)

text \<open>
  Claim C7, as the code has it. \<^verbatim>\<open>get_config_to_push\<close> is the run, starting from the
  empty string, over the list made of, for each name of the ordered stage-name list in
  turn, every registered callable of that name in the order of the registry: each is
  called once per occurrence of the name, on the output of the call before it. A name
  with no registered callable calls nothing, leaves the output as it was and raises
  nothing.
\<close>

theorem get_config_to_push_runs_all_matching:
  "get_config_to_push B J objects Device_objects cfg configs request custom_subscribed =
     (let (fl, tr) =
            run_in_order
              (concat (map (matching (push_callables B J objects Device_objects cfg))
                         (push_subscribed cfg custom_subscribed)))
              configs request ''''
      in (flow_result fl, tr))
   \<and> ((\<forall>func \<in> set callables. fn_name func \<noteq> func_name)
        \<longrightarrow> inner_loop callables func_name configs request c = (Continue c, []))"
  by (simp add: get_config_to_push_def outer_loop_plan inner_loop_matching matching_def
        filter_empty_conv[THEN iffD2])

lemma test_callables:
  "push_callables test_backend test_jinja [S5, S10] [D1, D2, D3] test_cfg
     = [render_secrets_callable test_backend test_jinja [S5, S10] [D1, D2, D3],
        append_a, failing, append_b]"
  by (simp add: push_callables_def test_cfg_def)

lemma test_names:
  "fn_name (render_secrets_callable B J objects Device_objects) = ''render_secrets''"
  "fn_name append_a = ''encrypt''" "fn_name append_b = ''encrypt''" "fn_name failing = ''fail''"
  by (simp_all add: render_secrets_callable_def append_a_def append_b_def failing_def)

text \<open>
  The name \<^verbatim>\<open>missing\<close> has no callable: the output \<^verbatim>\<open>AB\<close> of the stages before it
  is the result.
\<close>

theorem get_config_to_push_runs_all_matching_witness:
  "get_config_to_push test_backend test_jinja [S5, S10] [D1, D2, D3] test_cfg test_configs
     test_request (Some [''encrypt'', ''missing''])
   = (Inr ''AB'', [(''encrypt'', '''', Inr ''A''), (''encrypt'', ''A'', Inr ''AB'')])
   \<and> inner_loop [append_a, failing, append_b] ''missing'' test_configs test_request ''AB''
     = (Continue ''AB'', [])"
  using get_config_to_push_runs_all_matching
          [of test_backend test_jinja "[S5, S10]" "[D1, D2, D3]" test_cfg test_configs
              test_request "Some [''encrypt'', ''missing'']"
              "[append_a, failing, append_b]" "''missing''" "''AB''"]
  by (simp add: test_callables matching_def test_names push_subscribed_def flow_result_def)
     (simp add: append_a_def append_b_def)

text \<open>
  Claim C7 as the spec states it fails when two registered callables have the same
  name: for the one name \<^verbatim>\<open>encrypt\<close> the code calls both, the second on the output
  of the first, where calling the first match only gives \<^verbatim>\<open>A\<close>.
\<close>

theorem get_config_to_push_first_match_counterexample:
  "get_config_to_push test_backend test_jinja [S5, S10] [D1, D2, D3] test_cfg test_configs
     test_request (Some [''encrypt''])
   = (Inr ''AB'', [(''encrypt'', '''', Inr ''A''), (''encrypt'', ''A'', Inr ''AB'')])
   \<and> (let (fl, tr) =
            run_in_order
              (concat (map (first_matching
                              (push_callables test_backend test_jinja [S5, S10] [D1, D2, D3]
                                 test_cfg))
                         (push_subscribed test_cfg (Some [''encrypt'']))))
              test_configs test_request ''''
        in (flow_result fl, tr))
     = (Inr ''A'', [(''encrypt'', '''', Inr ''A'')])"
  by (simp add: get_config_to_push_def push_callables_def test_cfg_def push_subscribed_def
        first_matching_def flow_result_def render_secrets_callable_def
        append_a_def append_b_def failing_def)

section \<open>Rendering: the source text and the template errors\<close>

subsection \<open>The source of \<^verbatim>\<open>render_secrets\<close>\<close>

text \<open>
  Claim C8. When \<^verbatim>\<open>config_to_push\<close> is empty and the stored intended configuration
  is a non-empty text, \<^verbatim>\<open>render_secrets\<close> does what it does when given that text,
  and the first thing it does is to compile it. When \<^verbatim>\<open>config_to_push\<close> is empty
  and the intended configuration is \<^verbatim>\<open>None\<close> or empty, it raises
  \<open>RenderConfigToPushError\<close> ("No reference Intended configuration to render secrets
  from") having compiled no template, looked up no setting, fetched no context and
  rendered nothing.
\<close>

theorem render_secrets_fallback_and_fail_fast:
  "(config_to_push = [] \<and> intended_config configs = Some intended \<and> intended \<noteq> [] \<longrightarrow>
      render_secrets B J objects Device_objects config_to_push configs request
        = render_secrets B J objects Device_objects intended configs request
      \<and> (\<exists>events. snd (render_secrets B J objects Device_objects config_to_push configs request)
                     = EvFromString intended # events))
   \<and> (config_to_push = [] \<and> (intended_config configs = None \<or> intended_config configs = Some [])
        \<longrightarrow> render_secrets B J objects Device_objects config_to_push configs request
            = (Inl (RenderConfigToPushError
                      ''No reference Intended configuration to render secrets from''), []))"
  by (auto simp: render_secrets_def config_to_render_def no_reference_msg_def
           split: sum.splits exc.splits prod.splits)

lemma test_settings_map:
  "\<exists>m. get_device_to_settings_map [S5, S10] (filter (\<lambda>d. pk d = pk D1) [D1, D2, D3]) = Inr m
       \<and> m (pk D1) = Some S10"
proof -
  have "filter (\<lambda>d. pk d = pk D1) [D1, D2, D3] = [D1]"
    by (simp add: D1_def D2_def D3_def)
  moreover have "\<exists>m. get_device_to_settings_map [S5, S10] [D1] = Inr m \<and> m (pk D1) = Some S10"
    by (simp add: get_device_to_settings_map_def order_by_weight_desc_def exclude_isnull_def
          golden_config_setting_def weight_key_def D1_def G1_def G2_def G3_def S5_def S10_def)
  ultimately show ?thesis by simp
qed

lemma test_render_with_context:
  "render_with_context test_backend test_jinja [S5, S10] [D1, D2, D3] test_configs test_request
     template
   = ((case render test_jinja (get_secret_by_secret_group_slug test_backend user_2) template
             ''ams-edge-01'' of
         Inr rendered \<Rightarrow> Inr rendered | Inl error \<Rightarrow> Inl (convert_render_error error)),
      [EvSettingsMap, EvGraphQL ''query { b }'', EvRender])"
proof -
  have d: "device test_configs = D1" by (simp add: test_configs_def)
  from test_settings_map obtain m where
    m: "get_device_to_settings_map [S5, S10]
          (filter (\<lambda>d. pk d = pk (device test_configs)) [D1, D2, D3]) = Inr m"
       "m (pk (device test_configs)) = Some S10"
    unfolding d by blast
  have q: "sot_agg_query S10 = Some ''query { b }''" by (simp add: S10_def)
  have g: "graph_ql_query test_jinja test_request (device test_configs) ''query { b }''
             = Inr (200, ''ams-edge-01'')"
    by (simp add: test_jinja_def test_configs_def D1_def)
  have u: "user test_request = user_2" by (simp add: test_request_def)
  have "render_with_context test_backend test_jinja [S5, S10] [D1, D2, D3] test_configs
          test_request template
        = (case render test_jinja (get_secret_by_secret_group_slug test_backend user_2) template
                  ''ams-edge-01'' of
             Inr rendered \<Rightarrow> (Inr rendered, [EvSettingsMap, EvGraphQL ''query { b }'', EvRender])
           | Inl error \<Rightarrow>
               (Inl (convert_render_error error),
                [EvSettingsMap, EvGraphQL ''query { b }'', EvRender]))"
    unfolding render_with_context_def
    by (simp only: m q g u sum.case option.case prod.case)
  then show ?thesis by (simp split: sum.splits)
qed

lemma test_jinja_plain:
  "from_string test_jinja ''hostname r1'' = Inr ''hostname r1''"
  "render test_jinja secret_filter ''hostname r1'' ''ams-edge-01''
     = Inr ''hostname r1 for ams-edge-01''"
  by (simp_all add: test_jinja_def)

text \<open>
  With an empty \<^verbatim>\<open>config_to_push\<close> the stored text \<^verbatim>\<open>hostname r1\<close> is compiled and
  rendered; with no stored text nothing is done before the exception.
\<close>

theorem render_secrets_fallback_and_fail_fast_witness:
  "intended_config test_configs = Some ''hostname r1'' \<and>
   render_secrets test_backend test_jinja [S5, S10] [D1, D2, D3] '''' test_configs test_request
     = (Inr ''hostname r1 for ams-edge-01'',
        [EvFromString ''hostname r1'', EvSettingsMap, EvGraphQL ''query { b }'', EvRender]) \<and>
   intended_config no_intended = None \<and>
   render_secrets test_backend test_jinja [S5, S10] [D1, D2, D3] '''' no_intended test_request
     = (Inl (RenderConfigToPushError
               ''No reference Intended configuration to render secrets from''), [])"
proof -
  have i: "intended_config test_configs = Some ''hostname r1''"
    by (simp add: test_configs_def)
  have n: "intended_config no_intended = None"
    by (simp add: no_intended_def)
  have e: "render_secrets test_backend test_jinja [S5, S10] [D1, D2, D3] ''hostname r1''
             test_configs test_request
           = (Inr ''hostname r1 for ams-edge-01'',
              [EvFromString ''hostname r1'', EvSettingsMap, EvGraphQL ''query { b }'', EvRender])"
    by (simp add: render_secrets_def config_to_render_def test_render_with_context
          test_jinja_plain)
  from render_secrets_fallback_and_fail_fast
         [of "''''" test_configs "''hostname r1''" test_backend test_jinja "[S5, S10]"
             "[D1, D2, D3]" test_request] i e
  have a: "render_secrets test_backend test_jinja [S5, S10] [D1, D2, D3] '''' test_configs
             test_request
           = (Inr ''hostname r1 for ams-edge-01'',
              [EvFromString ''hostname r1'', EvSettingsMap, EvGraphQL ''query { b }'', EvRender])"
    by simp
  from render_secrets_fallback_and_fail_fast
         [of "''''" no_intended "''''" test_backend test_jinja "[S5, S10]"
             "[D1, D2, D3]" test_request] n
  have b: "render_secrets test_backend test_jinja [S5, S10] [D1, D2, D3] '''' no_intended
             test_request
           = (Inl (RenderConfigToPushError
                     ''No reference Intended configuration to render secrets from''), [])"
    by simp
  from i n a b show ?thesis by simp
qed

subsection \<open>Template errors\<close>

lemma render_secrets_reaches_render:
  assumes "config_to_render config_to_push configs = Some source" "source \<noteq> []"
    and "from_string J source = Inr template"
    and "get_device_to_settings_map objects
           (filter (\<lambda>d. pk d = pk (device configs)) Device_objects) = Inr m"
    and "m (pk (device configs)) = Some settings"
    and "sot_agg_query settings = Some q"
    and "graph_ql_query J request (device configs) q = Inr (status, device_data)"
    and "render J (get_secret_by_secret_group_slug B (user request)) template device_data
           = Inl error"
  shows "fst (render_secrets B J objects Device_objects config_to_push configs request)
           = Inl (convert_render_error error)"
  using assms by (simp add: render_secrets_def render_with_context_def)

text \<open>
  Claim C9, as the code has it. In \<^verbatim>\<open>render_jinja_template\<close> an undefined-variable
  error and a syntax error are each passed to \<^verbatim>\<open>logger.log_failure\<close> together with
  the device being processed, in the one call of the logger, and when the logger
  returns \<open>NornirNautobotException\<close> is raised. In \<^verbatim>\<open>render_secrets\<close>, when
  \<^verbatim>\<open>template.render\<close> is reached and raises an error of one of the three classes, the
  error is raised as \<open>RenderConfigToPushError\<close>, whose message holds the original
  message for an undefined-variable error, the line number for a syntax error, and a
  fixed text for any other template error.
\<close>

theorem template_errors_logged_or_converted:
  "(render_jinja2 template obj = Inl (UndefinedError msg) \<longrightarrow>
      snd (render_jinja_template render_jinja2 log_failure obj template)
        = [[ArgDevice obj, ArgString (undefined_error_msg template)]]
      \<and> (log_failure [ArgDevice obj, ArgString (undefined_error_msg template)] = None
           \<longrightarrow> fst (render_jinja_template render_jinja2 log_failure obj template)
                 = Inl (NornirNautobotException [])))
   \<and> (render_jinja2 template obj = Inl (TemplateSyntaxError lineno msg)
        \<or> render_jinja2 template obj = Inl (TemplateAssertionError lineno msg) \<longrightarrow>
      snd (render_jinja_template render_jinja2 log_failure obj template)
        = [[ArgDevice obj, ArgString (syntax_error_msg lineno template)]]
      \<and> (log_failure [ArgDevice obj, ArgString (syntax_error_msg lineno template)] = None
           \<longrightarrow> fst (render_jinja_template render_jinja2 log_failure obj template)
                 = Inl (NornirNautobotException [])))
   \<and> (config_to_render config_to_push configs = Some source \<and> source \<noteq> []
        \<and> from_string J source = Inr compiled
        \<and> get_device_to_settings_map objects
             (filter (\<lambda>d. pk d = pk (device configs)) Device_objects) = Inr m
        \<and> m (pk (device configs)) = Some settings
        \<and> sot_agg_query settings = Some q
        \<and> graph_ql_query J request (device configs) q = Inr (status, device_data)
        \<and> render J (get_secret_by_secret_group_slug B (user request)) compiled device_data
             = Inl error \<longrightarrow>
      (error = UndefinedError emsg \<longrightarrow>
         fst (render_secrets B J objects Device_objects config_to_push configs request)
           = Inl (RenderConfigToPushError
                    (''Jinja encountered and UndefinedError: '' @ emsg
                     @ '', check the template for missing variable definitions.\<newline>'')))
      \<and> (error = TemplateSyntaxError eline emsg \<or> error = TemplateAssertionError eline emsg \<longrightarrow>
         fst (render_secrets B J objects Device_objects config_to_push configs request)
           = Inl (RenderConfigToPushError
                    (''Jinja encountered a SyntaxError at line number '' @ str_nat eline
                     @ '',check the template for invalid Jinja syntax.\<newline>'')))
      \<and> (error = TemplateError emsg \<longrightarrow>
         fst (render_secrets B J objects Device_objects config_to_push configs request)
           = Inl (RenderConfigToPushError
                    ''Jinja encountered an unexpected TemplateError; check the template for correctness\<newline>'')))"
proof (intro conjI impI)
  assume "render_jinja2 template obj = Inl (UndefinedError msg)"
  then show "snd (render_jinja_template render_jinja2 log_failure obj template)
        = [[ArgDevice obj, ArgString (undefined_error_msg template)]]"
    by (simp add: render_jinja_template_def log_and_raise_def split: option.splits)
next
  assume "render_jinja2 template obj = Inl (UndefinedError msg)"
    and "log_failure [ArgDevice obj, ArgString (undefined_error_msg template)] = None"
  then show "fst (render_jinja_template render_jinja2 log_failure obj template)
                 = Inl (NornirNautobotException [])"
    by (simp add: render_jinja_template_def log_and_raise_def)
next
  assume "render_jinja2 template obj = Inl (TemplateSyntaxError lineno msg)
        \<or> render_jinja2 template obj = Inl (TemplateAssertionError lineno msg)"
  then show "snd (render_jinja_template render_jinja2 log_failure obj template)
        = [[ArgDevice obj, ArgString (syntax_error_msg lineno template)]]"
    by (auto simp: render_jinja_template_def log_and_raise_def split: option.splits)
next
  assume "render_jinja2 template obj = Inl (TemplateSyntaxError lineno msg)
        \<or> render_jinja2 template obj = Inl (TemplateAssertionError lineno msg)"
    and "log_failure [ArgDevice obj, ArgString (syntax_error_msg lineno template)] = None"
  then show "fst (render_jinja_template render_jinja2 log_failure obj template)
                 = Inl (NornirNautobotException [])"
    by (auto simp: render_jinja_template_def log_and_raise_def)
next
  assume a: "config_to_render config_to_push configs = Some source \<and> source \<noteq> []
        \<and> from_string J source = Inr compiled
        \<and> get_device_to_settings_map objects
             (filter (\<lambda>d. pk d = pk (device configs)) Device_objects) = Inr m
        \<and> m (pk (device configs)) = Some settings
        \<and> sot_agg_query settings = Some q
        \<and> graph_ql_query J request (device configs) q = Inr (status, device_data)
        \<and> render J (get_secret_by_secret_group_slug B (user request)) compiled device_data
             = Inl error"
  then have r: "fst (render_secrets B J objects Device_objects config_to_push configs request)
           = Inl (convert_render_error error)"
    using render_secrets_reaches_render [of config_to_push configs source J compiled objects
            Device_objects m settings q request status device_data B error]
    by blast
  {
    assume "error = UndefinedError emsg"
    with r show "fst (render_secrets B J objects Device_objects config_to_push configs request)
           = Inl (RenderConfigToPushError
                    (''Jinja encountered and UndefinedError: '' @ emsg
                     @ '', check the template for missing variable definitions.\<newline>''))"
      by (simp add: convert_render_error_def)
  next
    assume "error = TemplateSyntaxError eline emsg \<or> error = TemplateAssertionError eline emsg"
    with r show "fst (render_secrets B J objects Device_objects config_to_push configs request)
           = Inl (RenderConfigToPushError
                    (''Jinja encountered a SyntaxError at line number '' @ str_nat eline
                     @ '',check the template for invalid Jinja syntax.\<newline>''))"
      by (auto simp: convert_render_error_def)
  next
    assume "error = TemplateError emsg"
    with r show "fst (render_secrets B J objects Device_objects config_to_push configs request)
           = Inl (RenderConfigToPushError
                    ''Jinja encountered an unexpected TemplateError; check the template for correctness\<newline>'')"
      by (simp add: convert_render_error_def)
  }
qed

lemma test_config_to_render:
  "config_to_render '''' undefined_configs = Some ''{{ missing }}''"
  "config_to_render '''' include_configs = Some ''{% include x %}''"
  "config_to_render '''' syntax_configs = Some ''{% if %}''"
  by (simp_all add: config_to_render_def undefined_configs_def include_configs_def
        syntax_configs_def)

text \<open>
  An undefined variable in both paths: the logger is called with the device \<open>D1\<close> and
  \<open>NornirNautobotException\<close> is raised; \<^verbatim>\<open>render_secrets\<close> raises
  \<open>RenderConfigToPushError\<close> with the original message inside.
\<close>

theorem template_errors_logged_or_converted_witness:
  "test_render_jinja2 ''{{ obj.missing }}'' D1 = Inl (UndefinedError ''missing is undefined'') \<and>
   render_jinja_template test_render_jinja2 quiet_logger D1 ''{{ obj.missing }}''
     = (Inl (NornirNautobotException []),
        [[ArgDevice D1, ArgString (undefined_error_msg ''{{ obj.missing }}'')]]) \<and>
   fst (render_secrets test_backend test_jinja [S5, S10] [D1, D2, D3] '''' undefined_configs
          test_request)
     = Inl (RenderConfigToPushError
              (''Jinja encountered and UndefinedError: missing is undefined''
               @ '', check the template for missing variable definitions.\<newline>''))"
proof -
  have u: "test_render_jinja2 ''{{ obj.missing }}'' D1
             = Inl (UndefinedError ''missing is undefined'')"
    by (simp add: test_render_jinja2_def)
  have l: "quiet_logger [ArgDevice D1, ArgString (undefined_error_msg ''{{ obj.missing }}'')]
             = None"
    by (simp add: quiet_logger_def)
  from test_settings_map obtain m where
    m: "get_device_to_settings_map [S5, S10] (filter (\<lambda>d. pk d = pk D1) [D1, D2, D3]) = Inr m"
       "m (pk D1) = Some S10"
    by blast
  have d: "device undefined_configs = D1" by (simp add: undefined_configs_def)
  have c: "config_to_render '''' undefined_configs = Some ''{{ missing }}''
        \<and> ''{{ missing }}'' \<noteq> []
        \<and> from_string test_jinja ''{{ missing }}'' = Inr ''{{ missing }}''
        \<and> get_device_to_settings_map [S5, S10]
             (filter (\<lambda>d. pk d = pk (device undefined_configs)) [D1, D2, D3]) = Inr m
        \<and> m (pk (device undefined_configs)) = Some S10
        \<and> sot_agg_query S10 = Some ''query { b }''
        \<and> graph_ql_query test_jinja test_request (device undefined_configs) ''query { b }''
             = Inr (200, ''ams-edge-01'')
        \<and> render test_jinja (get_secret_by_secret_group_slug test_backend (user test_request))
             ''{{ missing }}'' ''ams-edge-01'' = Inl (UndefinedError ''missing is undefined'')"
    unfolding d using m
    by (simp add: test_config_to_render test_jinja_def S10_def D1_def)
  note t = template_errors_logged_or_converted
             [of test_render_jinja2 "''{{ obj.missing }}''" D1 "''missing is undefined''"
                 quiet_logger 0 "''''" undefined_configs "''{{ missing }}''" test_jinja
                 "''{{ missing }}''" "[S5, S10]" "[D1, D2, D3]" m S10 "''query { b }''"
                 test_request 200 "''ams-edge-01''" test_backend
                 "UndefinedError ''missing is undefined''" "''missing is undefined''" 0]
  from t u l have a:
    "render_jinja_template test_render_jinja2 quiet_logger D1 ''{{ obj.missing }}''
     = (Inl (NornirNautobotException []),
        [[ArgDevice D1, ArgString (undefined_error_msg ''{{ obj.missing }}'')]])"
    by (simp add: prod_eq_iff)
  from t c have b: "fst (render_secrets test_backend test_jinja [S5, S10] [D1, D2, D3] ''''
          undefined_configs test_request)
     = Inl (RenderConfigToPushError
              (''Jinja encountered and UndefinedError: missing is undefined''
               @ '', check the template for missing variable definitions.\<newline>''))"
    by simp
  from u a b show ?thesis by simp
qed

text \<open>
  Claim C9 as the spec states it fails in three places. A template error of the third
  class (\<^verbatim>\<open>boom\<close>) raised by \<^verbatim>\<open>template.render\<close> becomes a
  \<open>RenderConfigToPushError\<close> with a fixed text, without the original message; a syntax
  error found when the template is compiled leaves \<^verbatim>\<open>render_secrets\<close> as it is, not
  converted; and for an error of the third class \<^verbatim>\<open>render_jinja_template\<close> calls
  the logger with the message alone, without the device.
\<close>

theorem template_error_counterexample:
  "fst (render_secrets test_backend test_jinja [S5, S10] [D1, D2, D3] '''' include_configs
          test_request)
     = Inl (RenderConfigToPushError
              ''Jinja encountered an unexpected TemplateError; check the template for correctness\<newline>'')
   \<and> fst (render_secrets test_backend test_jinja [S5, S10] [D1, D2, D3] '''' syntax_configs
          test_request)
     = Inl (TemplateSyntaxError 1 ''Expected an expression'')
   \<and> snd (render_jinja_template test_render_jinja2 quiet_logger D1 ''{% include x %}'')
     = [[ArgString (template_error_msg ''{% include x %}'')]]"
proof -
  from test_settings_map obtain m where
    m: "get_device_to_settings_map [S5, S10] (filter (\<lambda>d. pk d = pk D1) [D1, D2, D3]) = Inr m"
       "m (pk D1) = Some S10"
    by blast
  have d: "device include_configs = D1" by (simp add: include_configs_def)
  have "fst (render_secrets test_backend test_jinja [S5, S10] [D1, D2, D3] '''' include_configs
          test_request) = Inl (convert_render_error (TemplateError ''boom''))"
  proof (rule render_secrets_reaches_render)
    show "config_to_render '''' include_configs = Some ''{% include x %}''"
      by (rule test_config_to_render)
    show "''{% include x %}'' \<noteq> []" by simp
    show "from_string test_jinja ''{% include x %}'' = Inr ''{% include x %}''"
      by (simp add: test_jinja_def)
    show "get_device_to_settings_map [S5, S10]
            (filter (\<lambda>d. pk d = pk (device include_configs)) [D1, D2, D3]) = Inr m"
      unfolding d by (rule m)
    show "m (pk (device include_configs)) = Some S10" unfolding d by (rule m)
    show "sot_agg_query S10 = Some ''query { b }''" by (simp add: S10_def)
    show "graph_ql_query test_jinja test_request (device include_configs) ''query { b }''
            = Inr (200, ''ams-edge-01'')"
      by (simp add: test_jinja_def d D1_def)
    show "render test_jinja (get_secret_by_secret_group_slug test_backend (user test_request))
            ''{% include x %}'' ''ams-edge-01'' = Inl (TemplateError ''boom'')"
      by (simp add: test_jinja_def)
  qed
  then have a: "fst (render_secrets test_backend test_jinja [S5, S10] [D1, D2, D3] ''''
      include_configs test_request)
     = Inl (RenderConfigToPushError
              ''Jinja encountered an unexpected TemplateError; check the template for correctness\<newline>'')"
    by (simp add: convert_render_error_def)
  have b: "fst (render_secrets test_backend test_jinja [S5, S10] [D1, D2, D3] '''' syntax_configs
          test_request) = Inl (TemplateSyntaxError 1 ''Expected an expression'')"
    by (simp add: render_secrets_def test_config_to_render test_jinja_def)
  have c: "snd (render_jinja_template test_render_jinja2 quiet_logger D1 ''{% include x %}'')
     = [[ArgString (template_error_msg ''{% include x %}'')]]"
    by (simp add: render_jinja_template_def test_render_jinja2_def log_and_raise_def
          quiet_logger_def)
  from a b c show ?thesis by simp
qed

end
